theory Spec2Isabelle
  imports Complex_Main
begin

section \<open>JavaScript values used by the front end\<close>

text \<open>
  Strings are lists of code units; the development covers code units below 256, the
  \<^typ>\<open>char\<close> range. A JavaScript number is \<open>NaN\<close>, an infinity, or a finite value;
  a finite value is the exact value of the double, a rational (\<open>-0\<close> is identified
  with \<open>0\<close>).
\<close>

datatype number = NaN | NegInfinity | Fin rat | PosInfinity

text \<open>The comparison \<open>a <= b\<close> of two numbers: false as soon as one side is \<open>NaN\<close>.\<close>

fun num_le :: "number \<Rightarrow> number \<Rightarrow> bool" where
  "num_le NaN _ = False"
| "num_le _ NaN = False"
| "num_le NegInfinity _ = True"
| "num_le _ PosInfinity = True"
| "num_le (Fin a) (Fin b) = (a \<le> b)"
| "num_le (Fin a) NegInfinity = False"
| "num_le PosInfinity (Fin b) = False"
| "num_le PosInfinity NegInfinity = False"

text \<open>\<open>Math.min\<close> and \<open>Math.max\<close> of two arguments: \<open>NaN\<close> when either is \<open>NaN\<close>.\<close>

definition Math_min :: "number \<Rightarrow> number \<Rightarrow> number" where
  "Math_min a b = (if a = NaN \<or> b = NaN then NaN else if num_le a b then a else b)"

definition Math_max :: "number \<Rightarrow> number \<Rightarrow> number" where
  "Math_max a b = (if a = NaN \<or> b = NaN then NaN else if num_le a b then b else a)"

subsection \<open>\<open>Number(string)\<close>: the StringToNumber conversion\<close>

definition StrWhiteSpaceChar :: "char \<Rightarrow> bool" where
  "StrWhiteSpaceChar c = (of_char c \<in> {9, 10, 11, 12, 13, 32, 160 :: nat})"

definition trim_ws :: "string \<Rightarrow> string" where
  "trim_ws s = rev (dropWhile StrWhiteSpaceChar (rev (dropWhile StrWhiteSpaceChar s)))"

definition is_digit :: "char \<Rightarrow> bool" where
  "is_digit c = (48 \<le> (of_char c :: nat) \<and> (of_char c :: nat) \<le> 57)"

definition digit_val :: "char \<Rightarrow> nat" where
  "digit_val c = of_char c - 48"

definition hex_val :: "char \<Rightarrow> nat option" where
  "hex_val c =
     (let n = (of_char c :: nat) in
      if 48 \<le> n \<and> n \<le> 57 then Some (n - 48)
      else if 65 \<le> n \<and> n \<le> 70 then Some (n - 55)
      else if 97 \<le> n \<and> n \<le> 102 then Some (n - 87)
      else None)"

text \<open>The value of a digit string in a radix; \<open>None\<close> on the empty string or a bad digit.\<close>

fun radix_digits :: "nat \<Rightarrow> nat \<Rightarrow> string \<Rightarrow> nat option" where
  "radix_digits r acc [] = Some acc"
| "radix_digits r acc (c # cs) =
     (case hex_val c of
        None \<Rightarrow> None
      | Some d \<Rightarrow> if d < r then radix_digits r (r * acc + d) cs else None)"

definition radix_literal :: "nat \<Rightarrow> string \<Rightarrow> nat option" where
  "radix_literal r ds = (if ds = [] then None else radix_digits r 0 ds)"

definition DecimalDigits :: "string \<Rightarrow> nat" where
  "DecimalDigits ds = foldl (\<lambda>a c. 10 * a + digit_val c) 0 ds"

text \<open>
  The exponent part after the mantissa: nothing, or \<open>e\<close>/\<open>E\<close>, an optional sign and
  at least one digit up to the end. The result is the sign and the magnitude.
\<close>

definition ExponentPart :: "string \<Rightarrow> (bool \<times> nat) option" where
  "ExponentPart r =
     (case r of
        [] \<Rightarrow> Some (False, 0)
      | c # ds \<Rightarrow>
          if c = CHR ''e'' \<or> c = CHR ''E'' then
            (let neg = (ds \<noteq> [] \<and> hd ds = CHR ''-'');
                 ds' = (if ds \<noteq> [] \<and> (hd ds = CHR ''-'' \<or> hd ds = CHR ''+'') then tl ds else ds)
             in if ds' \<noteq> [] \<and> list_all is_digit ds' then Some (neg, DecimalDigits ds') else None)
          else None)"

text \<open>
  The Number value of the positive rational \<open>a / b\<close>: the nearest double, ties to the
  even significand, and infinity from \<open>2^1024\<close> on. \<open>e\<close> is the binary exponent of
  \<open>a / b\<close>, \<open>s\<close> the exponent of the unit in the last place (that of the subnormals
  below \<open>2^-1022\<close>), \<open>k\<close> the value in such units after rounding.
\<close>

fun floor_log2 :: "nat \<Rightarrow> nat" where
  "floor_log2 n = (if n < 2 then 0 else Suc (floor_log2 (n div 2)))"

declare floor_log2.simps [simp del]

definition round_half_even :: "nat \<Rightarrow> nat \<Rightarrow> nat" where
  "round_half_even n m =
     (let q = n div m; r = n mod m
      in if 2 * r < m then q else if m < 2 * r then q + 1 else if even q then q else q + 1)"

definition to_double :: "nat \<Rightarrow> nat \<Rightarrow> number" where
  "to_double a b =
     (if a = 0 then Fin 0
      else
        (let d = int (floor_log2 a) - int (floor_log2 b);
             e = (if (if 0 \<le> d then b * 2 ^ nat d \<le> a else b \<le> a * 2 ^ nat (- d))
                  then d else d - 1);
             s = max e (- 1022) - 52;
             k = (if 0 \<le> s then round_half_even a (b * 2 ^ nat s)
                  else round_half_even (a * 2 ^ nat (- s)) b)
         in if 0 \<le> s then (if 2 ^ 1024 \<le> k * 2 ^ nat s then PosInfinity
                              else Fin (of_nat (k * 2 ^ nat s)))
            else Fin (of_nat k / 2 ^ nat (- s))))"

text \<open>
  The mathematical value of a decimal literal with the digits \<open>ip\<close> before the point,
  \<open>fp\<close> after it and the exponent \<open>e\<close>, as a Number.
\<close>

definition decimal_value :: "string \<Rightarrow> string \<Rightarrow> bool \<times> nat \<Rightarrow> number" where
  "decimal_value ip fp e =
     (if fst e then to_double (DecimalDigits (ip @ fp)) (10 ^ (length fp + snd e))
      else to_double (DecimalDigits (ip @ fp) * 10 ^ snd e) (10 ^ length fp))"

definition StrUnsignedDecimalLiteral :: "string \<Rightarrow> number" where
  "StrUnsignedDecimalLiteral s =
     (if s = ''Infinity'' then PosInfinity
      else
        (let ip = takeWhile is_digit s; r1 = dropWhile is_digit s in
         case r1 of
           [] \<Rightarrow> if ip = [] then NaN else decimal_value ip [] (False, 0)
         | c # r2 \<Rightarrow>
             if c = CHR ''.'' then
               (let fp = takeWhile is_digit r2; r3 = dropWhile is_digit r2 in
                if ip = [] \<and> fp = [] then NaN
                else
                  (case ExponentPart r3 of
                     None \<Rightarrow> NaN
                   | Some e \<Rightarrow> decimal_value ip fp e))
             else if ip = [] then NaN
             else
               (case ExponentPart r1 of
                  None \<Rightarrow> NaN
                | Some e \<Rightarrow> decimal_value ip [] e)))"

definition negate :: "number \<Rightarrow> number" where
  "negate x = (case x of NaN \<Rightarrow> NaN | NegInfinity \<Rightarrow> PosInfinity
                | Fin q \<Rightarrow> Fin (- q) | PosInfinity \<Rightarrow> NegInfinity)"

definition of_radix :: "nat option \<Rightarrow> number" where
  "of_radix v = (case v of None \<Rightarrow> NaN | Some n \<Rightarrow> to_double n 1)"

text \<open>
  \<open>Number(s)\<close> for a string: surrounding white space is dropped; the empty rest is
  \<open>0\<close>; \<open>0x\<close>, \<open>0o\<close> and \<open>0b\<close> literals take no sign; anything that is not a numeric
  literal is \<open>NaN\<close>.
\<close>

definition StringToNumber :: "string \<Rightarrow> number" where
  "StringToNumber str =
     (let s = trim_ws str in
      if s = [] then Fin 0
      else if take 2 s = ''0x'' \<or> take 2 s = ''0X'' then of_radix (radix_literal 16 (drop 2 s))
      else if take 2 s = ''0o'' \<or> take 2 s = ''0O'' then of_radix (radix_literal 8 (drop 2 s))
      else if take 2 s = ''0b'' \<or> take 2 s = ''0B'' then of_radix (radix_literal 2 (drop 2 s))
      else if hd s = CHR ''+'' then StrUnsignedDecimalLiteral (tl s)
      else if hd s = CHR ''-'' then negate (StrUnsignedDecimalLiteral (tl s))
      else StrUnsignedDecimalLiteral s)"

section \<open>The filter panel\<close>

datatype SortKey = relevance | price_asc | price_desc | newest

record FilterState =
  query :: string
  category :: "string option"
  price :: "number \<times> number"
  colors :: "string list"
  inStock :: bool
  detectedTags :: "string list"
  sort' :: SortKey

definition DEFAULTS :: FilterState where
  "DEFAULTS = \<lparr> query = [], category = None, price = (Fin 0, Fin 1000), colors = [],
                inStock = False, detectedTags = [], sort' = relevance \<rparr>"

text \<open>
  The label of the price range shows \<open>minMax\<close>, the two bounds of the state in order;
  the state itself, and so the object handed to \<open>onChange\<close>, keeps \<open>price\<close> as it is.
\<close>

definition minMax :: "FilterState \<Rightarrow> number \<times> number" where
  "minMax s = (Math_min (fst (price s)) (snd (price s)), Math_max (fst (price s)) (snd (price s)))"

text \<open>\<open>xs.includes(x)\<close> on an array of strings.\<close>

definition array_includes :: "string list \<Rightarrow> string \<Rightarrow> bool" where
  "array_includes xs x = (x \<in> set xs)"

definition toggleColor :: "string \<Rightarrow> FilterState \<Rightarrow> FilterState" where
  "toggleColor hex s =
     s\<lparr> colors := (if array_includes (colors s) hex
                    then filter (\<lambda>x. x \<noteq> hex) (colors s)
                    else colors s @ [hex]) \<rparr>"

definition toggleTag :: "string \<Rightarrow> FilterState \<Rightarrow> FilterState" where
  "toggleTag t s =
     s\<lparr> detectedTags := (if array_includes (detectedTags s) t
                          then filter (\<lambda>x. x \<noteq> t) (detectedTags s)
                          else detectedTags s @ [t]) \<rparr>"

text \<open>
  The two price inputs: \<open>Number(e.target.value || 0)\<close>. The empty string is falsy, so
  it is replaced by \<open>0\<close>; every other string goes to \<open>Number\<close> as it is.
\<close>

definition price_input :: "string \<Rightarrow> number" where
  "price_input v = (if v = [] then Fin 0 else StringToNumber v)"

definition onChangeMin :: "string \<Rightarrow> FilterState \<Rightarrow> FilterState" where
  "onChangeMin v s = s\<lparr> price := (price_input v, snd (price s)) \<rparr>"

definition onChangeMax :: "string \<Rightarrow> FilterState \<Rightarrow> FilterState" where
  "onChangeMax v s = s\<lparr> price := (fst (price s), price_input v) \<rparr>"






text \<open>
  A sequence of edits of the two price inputs. After each state change the effect
  \<open>onChange(state)\<close> hands the state itself to the parent, so the emitted object after the
  edits is the state they lead to.
\<close>

datatype price_edit = EditMin string | EditMax string

fun apply_edit :: "FilterState \<Rightarrow> price_edit \<Rightarrow> FilterState" where
  "apply_edit s (EditMin v) = onChangeMin v s"
| "apply_edit s (EditMax v) = onChangeMax v s"

definition emitted :: "FilterState \<Rightarrow> price_edit list \<Rightarrow> FilterState" where
  "emitted s es = foldl apply_edit s es"

section \<open>The upload component\<close>

text \<open>
  \<open>URL.createObjectURL\<close> hands out a new URL on every call: URLs are numbered in the
  order of their creation. The state keeps the preview list of the component and two
  logs: the URLs created and the calls of \<open>URL.revokeObjectURL\<close>, in order.
\<close>

record upload_state =
  previews :: "nat list"
  next_url :: nat
  created :: "nat list"
  revoked :: "nat list"

definition upload_init :: upload_state where
  "upload_init = \<lparr> previews = [], next_url = 0, created = [], revoked = [] \<rparr>"

text \<open>
  \<open>handleFiles\<close> of the upload component, with the render it causes. Nothing happens on
  an empty list. Otherwise one URL is created per file, and the preview list becomes
  \<open>[...urls, ...p].slice(0, 6)\<close>. The list is a new array, so the effect with the
  dependency \<open>[previews]\<close> runs again: before it does, the cleanup of the previous run
  revokes every URL of the list that run closed over, the previous preview list.
\<close>

definition upload_handleFiles :: "'f list \<Rightarrow> upload_state \<Rightarrow> upload_state" where
  "upload_handleFiles arr st =
     (if length arr = 0 then st
      else
        (let urls = [next_url st ..< next_url st + length arr] in
         \<lparr> previews = take 6 (urls @ previews st),
           next_url = next_url st + length arr,
           created = created st @ urls,
           revoked = revoked st @ previews st \<rparr>))"

text \<open>Teardown runs the cleanup of the last effect: it revokes the current preview list.\<close>

definition upload_teardown :: "upload_state \<Rightarrow> upload_state" where
  "upload_teardown st = st\<lparr> revoked := revoked st @ previews st \<rparr>"

text \<open>The life of a component: file additions (the number of files of each), then teardown.\<close>

definition upload_run :: "nat list \<Rightarrow> upload_state" where
  "upload_run adds =
     upload_teardown (foldl (\<lambda>st n. upload_handleFiles (replicate n ()) st) upload_init adds)"

definition times_revoked :: "upload_state \<Rightarrow> nat \<Rightarrow> nat" where
  "times_revoked st u = length (filter (\<lambda>x. x = u) (revoked st))"

section \<open>The root component\<close>

datatype toast_kind = kind_error | kind_info | kind_success

record Toast =
  toast_id :: string
  kind :: toast_kind
  message :: string

text \<open>
  \<open>uid(prefix)\<close> is \<open>prefix + "_" + Math.random().toString(36).slice(2, 8)\<close>. The
  argument \<open>r\<close> is the string \<open>Math.random().toString(36)\<close> of the call.
\<close>

definition slice :: "nat \<Rightarrow> nat \<Rightarrow> 'a list \<Rightarrow> 'a list" where
  "slice i j xs = take (j - i) (drop i xs)"

definition uid :: "string \<Rightarrow> string \<Rightarrow> string" where
  "uid prefix r = prefix @ ''_'' @ slice 2 8 r"

text \<open>
  The state of the root component that the search and the toasts touch, with the pending
  \<open>setTimeout\<close> callbacks (the time each is due, in milliseconds, and the toast
  identifier it removes) and the clock. The products are not inspected: their type is a
  parameter.
\<close>

record 'p app_state =
  results :: "'p list"
  total :: number
  isSearching :: bool
  toasts :: "Toast list"
  timers :: "(nat \<times> string) list"
  now :: nat

definition app_init :: "'p app_state" where
  "app_init = \<lparr> results = [], total = Fin 0, isSearching = False, toasts = [],
                 timers = [], now = 0 \<rparr>"

definition pushToast :: "toast_kind \<Rightarrow> string \<Rightarrow> string \<Rightarrow> 'p app_state \<Rightarrow> 'p app_state" where
  "pushToast k msg r st =
     (let i = uid ''toast'' r in
      st\<lparr> toasts := toasts st @ [\<lparr> toast_id = i, kind = k, message = msg \<rparr>],
          timers := timers st @ [(now st + 3200, i)] \<rparr>)"

text \<open>The callback of a timer: \<open>setToasts((t) => t.filter((x) => x.id !== id))\<close>.\<close>

definition expire :: "Toast list \<Rightarrow> string \<Rightarrow> Toast list" where
  "expire ts i = filter (\<lambda>x. toast_id x \<noteq> i) ts"

text \<open>Time passes: the clock moves on by \<open>d\<close> and the callbacks due by then run, in order.\<close>

definition advance :: "nat \<Rightarrow> 'p app_state \<Rightarrow> 'p app_state" where
  "advance d st =
     (let t = now st + d in
      st\<lparr> toasts := foldl expire (toasts st) (map snd (filter (\<lambda>w. fst w \<le> t) (timers st))),
          timers := filter (\<lambda>w. \<not> fst w \<le> t) (timers st),
          now := t \<rparr>)"

datatype toast_event = Push toast_kind string string | Wait nat

fun toast_step :: "'p app_state \<Rightarrow> toast_event \<Rightarrow> 'p app_state" where
  "toast_step st (Push k msg r) = pushToast k msg r st"
| "toast_step st (Wait d) = advance d st"

definition toast_run :: "'p app_state \<Rightarrow> toast_event list \<Rightarrow> 'p app_state" where
  "toast_run st evs = foldl toast_step st evs"

text \<open>
  The history of a sequence of events, read off the events alone: the time that has
  passed, each toast pushed with the time of its push, and, of these, the toasts pushed
  less than 3200 ms before the end.
\<close>

fun elapsed :: "toast_event list \<Rightarrow> nat" where
  "elapsed [] = 0"
| "elapsed (Push k msg r # evs) = elapsed evs"
| "elapsed (Wait d # evs) = d + elapsed evs"

fun stamps :: "nat \<Rightarrow> toast_event list \<Rightarrow> (nat \<times> Toast) list" where
  "stamps t [] = []"
| "stamps t (Push k msg r # evs) =
     (t, \<lparr> toast_id = uid ''toast'' r, kind = k, message = msg \<rparr>) # stamps t evs"
| "stamps t (Wait d # evs) = stamps (t + d) evs"

definition recent :: "toast_event list \<Rightarrow> (nat \<times> Toast) list" where
  "recent evs = filter (\<lambda>p. elapsed evs < fst p + 3200) (stamps 0 evs)"

text \<open>
  At no moment of the history do two toasts pushed within the last 3200 ms carry the
  same identifier.
\<close>

definition spaced :: "toast_event list \<Rightarrow> bool" where
  "spaced evs =
     list_all (\<lambda>n. distinct (map (\<lambda>p. toast_id (snd p)) (recent (take n evs))))
       [0 ..< Suc (length evs)]"

subsection \<open>The search handler\<close>

text \<open>What a promise settles to: a thrown value with its \<open>name\<close> and \<open>message\<close>, or a value.\<close>

datatype thrown = Thrown (err_name: string) (err_message: string)

datatype 'a settled = Rejected thrown | Resolved 'a

text \<open>The response of a search as the handler reads it: \<open>items\<close> and \<open>total\<close> may be missing.\<close>

record 'p SearchResponse =
  items :: "'p list option"
  total_count :: "number option"

definition falsy_number :: "number \<Rightarrow> bool" where
  "falsy_number n = (n = NaN \<or> n = Fin 0)"

text \<open>
  \<open>handleFiles\<close> of the root component, from the point where the search call has
  settled. With no file there is no call and nothing changes. \<open>r\<close> is the random string
  of the toast, should one be pushed.
\<close>

definition handleFiles ::
  "'f list \<Rightarrow> 'p SearchResponse settled \<Rightarrow> string \<Rightarrow> 'p app_state \<Rightarrow> 'p app_state" where
  "handleFiles files outcome r st =
     (if length files = 0 then st
      else
        (case outcome of
           Resolved res \<Rightarrow>
             (let st1 = st\<lparr> results := (case items res of None \<Rightarrow> [] | Some xs \<Rightarrow> xs),
                             total := (case total_count res of
                                         None \<Rightarrow> Fin 0
                                       | Some n \<Rightarrow> if falsy_number n then Fin 0 else n) \<rparr>;
                  st2 = (if (case items res of None \<Rightarrow> True | Some xs \<Rightarrow> length xs = 0)
                         then pushToast kind_info
                                ''No matches found. Try adjusting filters or another image.'' r st1
                         else st1)
              in st2\<lparr> isSearching := False \<rparr>)
         | Rejected err \<Rightarrow>
             (pushToast kind_error
                (if err_message err \<noteq> [] then err_message err else ''Search failed'') r st)
               \<lparr> isSearching := False \<rparr>))"

section \<open>Filters of the API\<close>

datatype 'a property = Absent | Undefined | Defined 'a

record ApiFilters =
  api_query :: "string property"
  api_category :: "string option property"
  api_price :: "(number \<times> number) property"
  api_colors :: "string list property"
  api_inStock :: "bool property"
  api_detectedTags :: "string list property"
  api_sort :: "SortKey property"

text \<open>
  \<open>toApiFilters\<close> of the root component: \<open>f.query || undefined\<close> and
  \<open>f.category ?? undefined\<close> leave their keys in the object, with the value
  \<open>undefined\<close> for an empty query and a \<open>null\<close> category.
\<close>

definition toApiFilters :: "FilterState \<Rightarrow> ApiFilters" where
  "toApiFilters f =
     \<lparr> api_query = (if query f \<noteq> [] then Defined (query f) else Undefined),
       api_category = (case category f of None \<Rightarrow> Undefined | Some c \<Rightarrow> Defined (Some c)),
       api_price = Defined (price f),
       api_colors = Defined (colors f),
       api_inStock = Defined (inStock f),
       api_detectedTags = Defined (detectedTags f),
       api_sort = Defined (sort' f) \<rparr>"

section \<open>The HTTP client\<close>

subsection \<open>Values of the platform\<close>

text \<open>The decimal rendering of a natural number, as a template literal prints it.\<close>

fun show_nat :: "nat \<Rightarrow> string" where
  "show_nat n =
     (if n < 10 then [''0123456789'' ! n]
      else show_nat (n div 10) @ [''0123456789'' ! (n mod 10)])"

declare show_nat.simps [simp del]

text \<open>
  A parsed JSON value. An object is the list of its properties, one entry per key.
\<close>

datatype json = JNull | JBool bool | JNum number | JStr string | JArr "json list"
  | JObj "(string \<times> json) list"

fun truthy :: "json \<Rightarrow> bool" where
  "truthy JNull = False"
| "truthy (JBool b) = b"
| "truthy (JNum n) = (\<not> falsy_number n)"
| "truthy (JStr s) = (s \<noteq> [])"
| "truthy (JArr xs) = True"
| "truthy (JObj kvs) = True"

text \<open>\<open>v?.k\<close> for \<open>k\<close> one of \<open>message\<close>, \<open>detail\<close>: only an object has such a property.\<close>

fun get_prop :: "json \<Rightarrow> string \<Rightarrow> json option" where
  "get_prop (JObj kvs) k = map_of kvs k"
| "get_prop v k = None"

fun join_with :: "string \<Rightarrow> string list \<Rightarrow> string" where
  "join_with sep [] = []"
| "join_with sep [x] = x"
| "join_with sep (x # y # ys) = x @ sep @ join_with sep (y # ys)"

text \<open>
  A file has a name and a content. An entry of a \<open>FormData\<close> is a file with the file
  name it is sent under, or a string.
\<close>

record File =
  name :: string
  content :: "nat list"

datatype form_value = FileValue File string | StringValue string

type_synonym FormData = "(string \<times> form_value) list"

text \<open>
  An abort signal carries its abort reason once it is aborted, and is aborted exactly
  when it has one. A reason is a thrown value with a name and a message.
\<close>

record AbortSignal =
  reason :: "thrown option"

definition aborted :: "AbortSignal \<Rightarrow> bool" where
  "aborted sg = (reason sg \<noteq> None)"

record Request =
  url :: string
  method' :: "string option"
  headers :: "(string \<times> string) list"
  body :: "FormData option"
  signal :: "AbortSignal option"

text \<open>
  A response: its status line, what \<open>res.json()\<close> settles to (\<open>Inl\<close> the error when
  the body is not JSON) and what \<open>res.text()\<close> resolves to (\<open>None\<close> when it rejects).
  Both read the same body.
\<close>

record Response =
  status :: nat
  statusText :: string
  json_body :: "thrown + json"
  text_body :: "string option"

definition ok :: "Response \<Rightarrow> bool" where
  "ok res = (200 \<le> status res \<and> status res \<le> 299)"

text \<open>
  What the module does not define: the base URL from the build environment; \<open>fetch\<close>,
  which settles a request and, as the second component, lists the requests it has put
  on the network; \<open>JSON.stringify\<close> on a filters object;
  \<open>Number.prototype.toString\<close>; and the message texts of the engine's own errors.
\<close>

record env =
  API_BASE :: string
  fetch :: "Request \<Rightarrow> Response settled \<times> Request list"
  JSON_stringify :: "ApiFilters \<Rightarrow> string"
  Number_toString :: "number \<Rightarrow> string"
  TypeError_text :: string
  AbortError_text :: string

text \<open>
  The abort steps of the Fetch standard, as a property of \<open>fetch\<close>: a request whose
  signal is already aborted is rejected with the reason of the signal, and nothing is
  put on the network.
\<close>

definition abort_steps :: "env \<Rightarrow> bool" where
  "abort_steps E =
     (\<forall>req sg e. signal req = Some sg \<and> reason sg = Some e \<longrightarrow> fetch E req = (Rejected e, []))"

text \<open>A \<open>fetch\<close> that takes these steps and hands every other request to a backend.\<close>

definition standard_fetch ::
  "(Request \<Rightarrow> Response settled) \<Rightarrow> Request \<Rightarrow> Response settled \<times> Request list" where
  "standard_fetch backend req =
     (case signal req of
        None \<Rightarrow> (backend req, [req])
      | Some sg \<Rightarrow>
          (case reason sg of
             None \<Rightarrow> (backend req, [req])
           | Some e \<Rightarrow> (Rejected e, [])))"

text \<open>
  The conversion of a JSON value to a string, as \<open>new Error(m)\<close> applies it. An object
  is printed by \<open>Object.prototype.toString\<close>, unless it has a key \<open>toString\<close> of its
  own: the value under that key is no function, so the conversion finds no method and
  throws a \<open>TypeError\<close>. An array joins the conversions of its elements with commas,
  \<open>null\<close> counting as empty.
\<close>

fun ToString :: "env \<Rightarrow> json \<Rightarrow> thrown + string"
  and ToString_elements :: "env \<Rightarrow> json list \<Rightarrow> thrown + string list" where
  "ToString E JNull = Inr ''null''"
| "ToString E (JBool b) = Inr (if b then ''true'' else ''false'')"
| "ToString E (JNum n) = Inr (Number_toString E n)"
| "ToString E (JStr s) = Inr s"
| "ToString E (JArr xs) =
     (case ToString_elements E xs of Inl e \<Rightarrow> Inl e | Inr ss \<Rightarrow> Inr (join_with '','' ss))"
| "ToString E (JObj kvs) =
     (if ''toString'' \<in> fst ` set kvs then Inl (Thrown ''TypeError'' (TypeError_text E))
      else Inr ''[object Object]'')"
| "ToString_elements E [] = Inr []"
| "ToString_elements E (x # xs) =
     (case (if x = JNull then Inr [] else ToString E x) of
        Inl e \<Rightarrow> Inl e
      | Inr s \<Rightarrow> (case ToString_elements E xs of Inl e \<Rightarrow> Inl e | Inr ss \<Rightarrow> Inr (s # ss)))"

subsection \<open>The request helpers\<close>

record RequestOptions =
  opt_method :: "string option"
  opt_headers :: "(string \<times> string) list"
  opt_body :: "FormData option"
  opt_signal :: "AbortSignal option"

text \<open>
  \<open>{...a, ...b}\<close> on headers (each a list with one entry per key): a key of \<open>a\<close> keeps
  its place and takes the value \<open>b\<close> gives it, if any; the other keys of \<open>b\<close> follow.
\<close>

definition spread :: "(string \<times> string) list \<Rightarrow> (string \<times> string) list \<Rightarrow> (string \<times> string) list" where
  "spread a b =
     map (\<lambda>kv. (fst kv, case map_of b (fst kv) of None \<Rightarrow> snd kv | Some v \<Rightarrow> v)) a
     @ filter (\<lambda>kv. fst kv \<notin> fst ` set a) b"

text \<open>
  \<open>a || b\<close> on values that may be \<open>undefined\<close> (\<open>None\<close>), and what
  \<open>throw new Error(m)\<close> throws: the \<open>Error\<close> whose message is the string conversion of
  \<open>m\<close> (empty for \<open>undefined\<close>), or the \<open>TypeError\<close> of that conversion.
\<close>

definition js_or :: "json option \<Rightarrow> json option \<Rightarrow> json option" where
  "js_or a b = (case a of None \<Rightarrow> b | Some v \<Rightarrow> if truthy v then a else b)"

definition new_Error :: "env \<Rightarrow> json option \<Rightarrow> thrown" where
  "new_Error E m =
     (case m of
        None \<Rightarrow> Thrown ''Error'' []
      | Some v \<Rightarrow> (case ToString E v of Inl e \<Rightarrow> e | Inr s \<Rightarrow> Thrown ''Error'' s))"

definition api_error :: "env \<Rightarrow> Response \<Rightarrow> json \<Rightarrow> thrown" where
  "api_error E res payload =
     new_Error E
       (js_or (js_or (get_prop payload ''message'') (get_prop payload ''detail''))
          (Some (JStr (''API error '' @ show_nat (status res) @ '' '' @ statusText res))))"

text \<open>The request that \<open>apiRequest\<close> hands to \<open>fetch\<close>.\<close>

definition api_request :: "env \<Rightarrow> string \<Rightarrow> RequestOptions \<Rightarrow> Request" where
  "api_request E path opts =
     \<lparr> url = API_BASE E @ path,
       method' = opt_method opts,
       headers = spread (if opt_body opts \<noteq> None then []
                         else [(''Content-Type'', ''application/json'')])
                   (opt_headers opts),
       body = opt_body opts,
       signal = opt_signal opts \<rparr>"

text \<open>\<open>payload\<close>: the body parsed as JSON, or \<open>null\<close> when \<open>res.json()\<close> throws.\<close>

definition json_or_null :: "Response \<Rightarrow> json" where
  "json_or_null res = (case json_body res of Inl e \<Rightarrow> JNull | Inr j \<Rightarrow> j)"

definition apiRequest :: "env \<Rightarrow> string \<Rightarrow> RequestOptions \<Rightarrow> json settled \<times> Request list" where
  "apiRequest E path opts =
     (case fetch E (api_request E path opts) of
        (Rejected e, sent) \<Rightarrow> (Rejected e, sent)
      | (Resolved res, sent) \<Rightarrow>
          (let payload = json_or_null res in
           if \<not> ok res then (Rejected (api_error E res payload), sent)
           else (Resolved payload, sent)))"

text \<open>The filters object of the API: a property is absent, present with the value
  \<open>undefined\<close>, or present with a value. \<open>category\<close> may also be \<open>null\<close>.\<close>

definition present :: "'a property \<Rightarrow> bool" where
  "present p = (p \<noteq> Absent)"

definition Object_keys :: "ApiFilters \<Rightarrow> string list" where
  "Object_keys f =
     (if present (api_query f) then [''query''] else [])
     @ (if present (api_category f) then [''category''] else [])
     @ (if present (api_price f) then [''price''] else [])
     @ (if present (api_colors f) then [''colors''] else [])
     @ (if present (api_inStock f) then [''inStock''] else [])
     @ (if present (api_detectedTags f) then [''detectedTags''] else [])
     @ (if present (api_sort f) then [''sort''] else [])"

definition buildSearchForm :: "env \<Rightarrow> File list \<Rightarrow> ApiFilters option \<Rightarrow> FormData" where
  "buildSearchForm E files filters =
     map (\<lambda>(i, f). (''files'',
            FileValue f (if name f \<noteq> [] then name f else ''image_'' @ show_nat i @ ''.jpg'')))
       (enumerate 0 files)
     @ (case filters of
          None \<Rightarrow> []
        | Some fl \<Rightarrow>
            if length (Object_keys fl) > 0
            then [(''filters'', StringValue (JSON_stringify E fl))] else [])"

text \<open>\<open>form.getAll(k)\<close>: the values of the entries named \<open>k\<close>, in order.\<close>

definition getAll :: "FormData \<Rightarrow> string \<Rightarrow> form_value list" where
  "getAll form k = map snd (filter (\<lambda>e. fst e = k) form)"

text \<open>The files among some values of a form, in order.\<close>

definition files_of :: "form_value list \<Rightarrow> File list" where
  "files_of vs = concat (map (\<lambda>v. case v of FileValue f n \<Rightarrow> [f] | StringValue t \<Rightarrow> []) vs)"

subsection \<open>The public calls\<close>

definition GET :: "AbortSignal option \<Rightarrow> RequestOptions" where
  "GET sg = \<lparr> opt_method = Some ''GET'', opt_headers = [], opt_body = None, opt_signal = sg \<rparr>"

definition POST :: "AbortSignal option \<Rightarrow> RequestOptions" where
  "POST sg = \<lparr> opt_method = Some ''POST'', opt_headers = [], opt_body = None, opt_signal = sg \<rparr>"

definition getHealth :: "env \<Rightarrow> AbortSignal option \<Rightarrow> json settled \<times> Request list" where
  "getHealth E sg = apiRequest E ''/health'' (GET sg)"

definition getCategories :: "env \<Rightarrow> AbortSignal option \<Rightarrow> json settled \<times> Request list" where
  "getCategories E sg = apiRequest E ''/categories'' (GET sg)"

definition getTags :: "env \<Rightarrow> AbortSignal option \<Rightarrow> json settled \<times> Request list" where
  "getTags E sg = apiRequest E ''/tags'' (GET sg)"

definition precomputeEmbeddings :: "env \<Rightarrow> AbortSignal option \<Rightarrow> json settled \<times> Request list" where
  "precomputeEmbeddings E sg = apiRequest E ''/precompute'' (POST sg)"

definition search_error_message :: "Response \<Rightarrow> string" where
  "search_error_message res =
     (let text = (case text_body res of None \<Rightarrow> [] | Some t \<Rightarrow> t) in
      if text \<noteq> [] then text
      else ''Search failed: '' @ show_nat (status res) @ '' '' @ statusText res)"

text \<open>The request that \<open>uploadAndSearch\<close> hands to \<open>fetch\<close>.\<close>

definition search_request ::
  "env \<Rightarrow> File list \<Rightarrow> ApiFilters option \<Rightarrow> AbortSignal option \<Rightarrow> Request" where
  "search_request E files filters sg =
     \<lparr> url = API_BASE E @ ''/search'', method' = Some ''POST'', headers = [],
       body = Some (buildSearchForm E files filters), signal = sg \<rparr>"

definition uploadAndSearch ::
  "env \<Rightarrow> File list \<Rightarrow> ApiFilters option \<Rightarrow> AbortSignal option \<Rightarrow> json settled \<times> Request list" where
  "uploadAndSearch E files filters sg =
     (case fetch E (search_request E files filters sg) of
        (Rejected e, sent) \<Rightarrow> (Rejected e, sent)
      | (Resolved res, sent) \<Rightarrow>
          if \<not> ok res then (Rejected (Thrown ''Error'' (search_error_message res)), sent)
          else (case json_body res of
                  Inl e \<Rightarrow> (Rejected e, sent)
                | Inr j \<Rightarrow> (Resolved j, sent)))"

text \<open>
  \<open>encodeURIComponent\<close> on code units below 256: letters, digits and
  \<open>- _ . ! ~ * ' ( )\<close> are kept; every other code unit is written as the bytes of its
  UTF-8 encoding, each \<open>%\<close> and two upper-case hexadecimal digits.
\<close>

definition uriUnescaped :: "char \<Rightarrow> bool" where
  "uriUnescaped c =
     (let n = (of_char c :: nat) in
      (65 \<le> n \<and> n \<le> 90) \<or> (97 \<le> n \<and> n \<le> 122) \<or> (48 \<le> n \<and> n \<le> 57)
      \<or> c \<in> set ''-_.!~*()'' \<or> n = 39)"

definition percent :: "nat \<Rightarrow> string" where
  "percent b = [CHR ''%'', ''0123456789ABCDEF'' ! (b div 16), ''0123456789ABCDEF'' ! (b mod 16)]"

definition utf8 :: "nat \<Rightarrow> nat list" where
  "utf8 cp = (if cp < 128 then [cp] else [192 + cp div 64, 128 + cp mod 64])"

definition encode_unit :: "char \<Rightarrow> string" where
  "encode_unit c = (if uriUnescaped c then [c] else concat (map percent (utf8 (of_char c))))"

definition encodeURIComponent :: "string \<Rightarrow> string" where
  "encodeURIComponent s = concat (map encode_unit s)"

definition product_path :: "string \<Rightarrow> string" where
  "product_path ident = ''/products/'' @ encodeURIComponent ident"

definition getProduct :: "env \<Rightarrow> string \<Rightarrow> AbortSignal option \<Rightarrow> json settled \<times> Request list" where
  "getProduct E ident sg = apiRequest E (product_path ident) (GET sg)"

text \<open>
  The path of a request as \<open>fetch\<close> sends it. The URL parser cuts the path at \<open>?\<close> or
  \<open>#\<close>, splits it at \<open>/\<close>, and resolves dot segments: \<open>.\<close> (also written
  \<open>%2e\<close>) is dropped, \<open>..\<close> removes the segment before it, and either one in the
  last place leaves an empty last segment.
\<close>

fun split_slash :: "string \<Rightarrow> string list" where
  "split_slash [] = [[]]"
| "split_slash (c # cs) =
     (if c = CHR ''/'' then [] # split_slash cs
      else (case split_slash cs of [] \<Rightarrow> [[c]] | seg # segs \<Rightarrow> (c # seg) # segs))"

definition single_dot :: "string \<Rightarrow> bool" where
  "single_dot seg = (seg \<in> {''.'', ''%2e'', ''%2E''})"

definition double_dot :: "string \<Rightarrow> bool" where
  "double_dot seg =
     (seg \<in> {''..'', ''.%2e'', ''.%2E'', ''%2e.'', ''%2E.'',
              ''%2e%2e'', ''%2e%2E'', ''%2E%2e'', ''%2E%2E''})"

fun path_state :: "string list \<Rightarrow> string list \<Rightarrow> string list" where
  "path_state path [] = path"
| "path_state path [seg] =
     (if double_dot seg then butlast path @ [[]]
      else if single_dot seg then path @ [[]]
      else path @ [seg])"
| "path_state path (seg # segs) =
     (if double_dot seg then path_state (butlast path) segs
      else if single_dot seg then path_state path segs
      else path_state (path @ [seg]) segs)"

definition sent_path :: "string \<Rightarrow> string list" where
  "sent_path p =
     path_state []
       (split_slash (drop 1 (takeWhile (\<lambda>c. c \<noteq> CHR ''?'' \<and> c \<noteq> CHR ''#'') p)))"

text \<open>
  \<open>withAbort(uploadAndSearch)\<close> creates a controller, whose signal starts without a
  reason. \<open>cancel\<close> calls \<open>abort()\<close> with no reason: a signal not yet aborted gets the
  default reason, a \<open>DOMException\<close> named \<open>AbortError\<close>.
\<close>

definition new_controller :: AbortSignal where
  "new_controller = \<lparr> reason = None \<rparr>"

definition cancel :: "env \<Rightarrow> AbortSignal \<Rightarrow> AbortSignal" where
  "cancel E sg =
     (if aborted sg then sg
      else sg\<lparr> reason := Some (Thrown ''AbortError'' (AbortError_text E)) \<rparr>)"

text \<open>
  \<open>run(...args)\<close> calls \<open>fn(...args, controller.signal)\<close>: the signal follows the
  arguments given. \<open>run(files, filters)\<close> puts it in the third place, \<open>run(files)\<close>
  in the second: there \<open>uploadAndSearch\<close> takes it for the filters (an object without
  a key of its own, as \<open>Object.keys\<close> sees a signal) and gets no signal at all.
\<close>

datatype 'a argument = Omitted | Passed 'a

definition keyless :: ApiFilters where
  "keyless =
     \<lparr> api_query = Absent, api_category = Absent, api_price = Absent, api_colors = Absent,
       api_inStock = Absent, api_detectedTags = Absent, api_sort = Absent \<rparr>"

definition run ::
  "env \<Rightarrow> AbortSignal \<Rightarrow> File list \<Rightarrow> ApiFilters option argument
     \<Rightarrow> json settled \<times> Request list" where
  "run E controller files a =
     (case a of
        Passed filters \<Rightarrow> uploadAndSearch E files filters (Some controller)
      | Omitted \<Rightarrow> uploadAndSearch E files (Some keyless) None)"

subsection \<open>Backends that refuse every request\<close>

text \<open>
  An environment whose backend answers every request with status 500 and the JSON body
  \<open>{"detail":"bad"}\<close>, and one whose backend answers with status 500 and an empty
  body. Their \<open>fetch\<close> takes the abort steps; \<open>JSON.stringify\<close>,
  \<open>Number.prototype.toString\<close> and the message texts are stand-ins: nothing below
  depends on what they print.
\<close>

definition refused :: Response where
  \<open>refused = \<lparr> status = 500, statusText = ''Internal Server Error'',
                 json_body = Inr (JObj [(''detail'', JStr ''bad'')]),
                 text_body = Some ''{"detail":"bad"}'' \<rparr>\<close>

definition refusing :: env where
  "refusing = \<lparr> API_BASE = ''http://localhost:8000'',
                fetch = standard_fetch (\<lambda>req. Resolved refused),
                JSON_stringify = (\<lambda>f. ''{}''),
                Number_toString = (\<lambda>n. ''0''),
                TypeError_text = ''Cannot convert object to primitive value'',
                AbortError_text = ''The operation was aborted'' \<rparr>"

definition refused_empty :: Response where
  "refused_empty = \<lparr> status = 500, statusText = ''Internal Server Error'',
                      json_body = Inl (Thrown ''SyntaxError'' ''Unexpected end of JSON input''),
                      text_body = Some [] \<rparr>"

definition refusing_empty :: env where
  "refusing_empty = refusing\<lparr> fetch := standard_fetch (\<lambda>req. Resolved refused_empty) \<rparr>"

text \<open>A signal aborted with an \<open>Error\<close> as its reason.\<close>

definition aborted_with_Error :: AbortSignal where
  "aborted_with_Error =
     \<lparr> reason = Some (Thrown ''Error'' ''Search failed: 500 Internal Server Error'') \<rparr>"

text \<open>A body whose \<open>message\<close> is an object with a key \<open>toString\<close> of its own.\<close>

definition refused_toString :: Response where
  \<open>refused_toString =
     \<lparr> status = 500, statusText = ''Internal Server Error'',
       json_body = Inr (JObj [(''message'', JObj [(''toString'', JNull)])]),
       text_body = Some ''{"message":{"toString":null}}'' \<rparr>\<close>

text \<open>A filters object with the single key \<open>query\<close>, whose value is \<open>undefined\<close>.\<close>

definition query_undefined :: ApiFilters where
  "query_undefined =
     \<lparr> api_query = Undefined, api_category = Absent, api_price = Absent, api_colors = Absent,
       api_inStock = Absent, api_detectedTags = Absent, api_sort = Absent \<rparr>"

text \<open>
  The condition of the specification, "at least one filter is set": some property of the
  filters object holds a value.
\<close>

definition is_set :: "'a property \<Rightarrow> bool" where
  "is_set p = (case p of Defined v \<Rightarrow> True | Undefined \<Rightarrow> False | Absent \<Rightarrow> False)"

definition some_filter_set :: "ApiFilters \<Rightarrow> bool" where
  "some_filter_set f =
     (is_set (api_query f) \<or> is_set (api_category f) \<or> is_set (api_price f)
      \<or> is_set (api_colors f) \<or> is_set (api_inStock f) \<or> is_set (api_detectedTags f)
      \<or> is_set (api_sort f))"

section \<open>Properties of the filter panel\<close>

lemmas num_defs = StringToNumber_def trim_ws_def StrWhiteSpaceChar_def
  StrUnsignedDecimalLiteral_def is_digit_def digit_val_def DecimalDigits_def ExponentPart_def
  decimal_value_def to_double_def round_half_even_def floor_log2.simps Let_def
  negate_def of_radix_def radix_literal_def hex_val_def

lemma Number_2000: "StringToNumber ''2000'' = Fin 2000"
  by (simp add: num_defs)

lemma min_le_max: "a \<noteq> NaN \<Longrightarrow> b \<noteq> NaN \<Longrightarrow> num_le (Math_min a b) (Math_max a b)"
  by (cases a; cases b) (auto simp: Math_min_def Math_max_def)

lemma min_max_swap:
  "a \<noteq> NaN \<Longrightarrow> b \<noteq> NaN \<Longrightarrow>
   (Math_min a b, Math_max a b) = (a, b) \<or> (Math_min a b, Math_max a b) = (b, a)"
  by (auto simp: Math_min_def Math_max_def)

text \<open>
  C2, as stated: after every sequence of price-bound edits the price interval of the
  emitted filter object has min \<open>\<le>\<close> max. It fails: from the defaults \<open>[0, 1000]\<close>,
  typing \<open>2000\<close> into the min field emits \<open>price = [2000, 1000]\<close>.
\<close>

theorem emitted_price_unordered:
  "\<not> num_le (fst (price (emitted DEFAULTS [EditMin ''2000''])))
             (snd (price (emitted DEFAULTS [EditMin ''2000''])))"
  by (simp add: emitted_def onChangeMin_def price_input_def DEFAULTS_def Number_2000)

text \<open>
  C2, amended: after every sequence of price-bound edits that leaves two numbers (no
  \<open>NaN\<close>) in the state, the pair \<open>minMax\<close> shown in the label of the panel has
  min \<open>\<le>\<close> max and is the pair of the state, in order or swapped. The emitted filter
  object is not reordered: an edit stores the coerced input in its own position and
  keeps the other bound.
\<close>

theorem minMax_ordered:
  assumes "fst (price (emitted s es)) \<noteq> NaN" and "snd (price (emitted s es)) \<noteq> NaN"
  shows "num_le (fst (minMax (emitted s es))) (snd (minMax (emitted s es)))
         \<and> (minMax (emitted s es) = price (emitted s es)
            \<or> minMax (emitted s es) = prod.swap (price (emitted s es)))
         \<and> price (onChangeMin v s) = (price_input v, snd (price s))
         \<and> price (onChangeMax v s) = (fst (price s), price_input v)"
  using min_le_max[OF assms] min_max_swap[OF assms]
  by (cases "price (emitted s es)") (auto simp: minMax_def onChangeMin_def onChangeMax_def)

theorem minMax_ordered_witness:
  "minMax (emitted DEFAULTS [EditMin ''2000'']) = (Fin 1000, Fin 2000)
   \<and> num_le (fst (minMax (emitted DEFAULTS [EditMin ''2000''])))
            (snd (minMax (emitted DEFAULTS [EditMin ''2000''])))"
proof -
  have p: "price (emitted DEFAULTS [EditMin ''2000'']) = (Fin 2000, Fin 1000)"
    by (simp add: emitted_def onChangeMin_def price_input_def DEFAULTS_def Number_2000)
  have a: "fst (price (emitted DEFAULTS [EditMin ''2000''])) \<noteq> NaN" by (simp add: p)
  have b: "snd (price (emitted DEFAULTS [EditMin ''2000''])) \<noteq> NaN" by (simp add: p)
  from minMax_ordered[OF a b] show ?thesis
    by (simp add: minMax_def p Math_min_def Math_max_def)
qed



















text \<open>
  C7: toggling the same colour (or tag) twice gives back the original membership of the
  \<open>colors\<close> (or \<open>detectedTags\<close>) field. The first toggle removes every occurrence of a
  value that is present and appends one that is absent, so it flips the membership of
  the value; the second toggle flips it back.
\<close>

theorem toggle_twice_membership:
  "set (colors (toggleColor hex (toggleColor hex s))) = set (colors s)
   \<and> set (detectedTags (toggleTag t (toggleTag t s))) = set (detectedTags s)
   \<and> (hex \<in> set (colors (toggleColor hex s))) = (hex \<notin> set (colors s))
   \<and> (t \<in> set (detectedTags (toggleTag t s))) = (t \<notin> set (detectedTags s))
   \<and> colors (toggleColor hex s)
       = (if hex \<in> set (colors s) then filter (\<lambda>x. x \<noteq> hex) (colors s) else colors s @ [hex])
   \<and> detectedTags (toggleTag t s)
       = (if t \<in> set (detectedTags s) then filter (\<lambda>x. x \<noteq> t) (detectedTags s)
          else detectedTags s @ [t])"
  by (auto simp: toggleColor_def toggleTag_def array_includes_def)

section \<open>Properties of the upload component\<close>

text \<open>
  C3: every preview URL is to be revoked exactly once, when it leaves the preview list or
  at teardown, and never while it is still in the list. The component does otherwise.
  Adding one file and then another revokes URL \<open>0\<close> when the second file arrives,
  while it is still in the list, and revokes it again at teardown: twice in all. Adding
  seven files at once creates seven URLs; the seventh never enters the list and is never
  revoked.
\<close>

theorem preview_revocation_defects:
  "revoked (upload_run [1, 1]) = [0, 1, 0]
   \<and> times_revoked (upload_run [1, 1]) 0 = 2
   \<and> 0 \<in> set (previews (upload_handleFiles [()] (upload_handleFiles [()] upload_init)))
   \<and> 0 \<in> set (revoked (upload_handleFiles [()] (upload_handleFiles [()] upload_init)))
   \<and> 6 \<in> set (created (upload_run [7]))
   \<and> times_revoked (upload_run [7]) 6 = 0"
  by (simp add: upload_run_def upload_teardown_def upload_handleFiles_def upload_init_def
      times_revoked_def upt_rec Let_def)

section \<open>Properties of the root component\<close>

text \<open>
  C6: a search that settles, for a non-empty list of files. When it resolves with no item
  (or without \<open>items\<close>), exactly one toast is appended, of kind info, and the results
  become empty. When it throws, exactly one toast is appended, of kind error; it carries
  the message of the failure (\<open>Search failed\<close> in place of an empty message), and the
  results and the total stay as they were.
\<close>

theorem search_completion_toasts:
  assumes "files \<noteq> []"
  shows "(items res = None \<or> items res = Some [] \<longrightarrow>
            toasts (handleFiles files (Resolved res) r st)
              = toasts st @ [\<lparr> toast_id = uid ''toast'' r, kind = kind_info,
                   message = ''No matches found. Try adjusting filters or another image.'' \<rparr>]
            \<and> results (handleFiles files (Resolved res) r st) = [])
         \<and> toasts (handleFiles files (Rejected err) r st)
              = toasts st @ [\<lparr> toast_id = uid ''toast'' r, kind = kind_error,
                   message = (if err_message err \<noteq> [] then err_message err else ''Search failed'') \<rparr>]
         \<and> results (handleFiles files (Rejected err) r st) = results st
         \<and> total (handleFiles files (Rejected err) r st) = total st"
  using assms by (auto simp: handleFiles_def pushToast_def Let_def)

theorem search_completion_toasts_witness:
  "[()] \<noteq> []
   \<and> toasts (handleFiles [()] (Resolved \<lparr> items = Some [], total_count = Some (Fin 0) \<rparr>)
        ''0.abcdefgh'' ((app_init :: nat app_state)\<lparr> results := [1, 2] \<rparr>))
       = [\<lparr> toast_id = ''toast_abcdef'', kind = kind_info,
            message = ''No matches found. Try adjusting filters or another image.'' \<rparr>]
   \<and> results (handleFiles [()] (Resolved \<lparr> items = Some [], total_count = Some (Fin 0) \<rparr>)
        ''0.abcdefgh'' ((app_init :: nat app_state)\<lparr> results := [1, 2] \<rparr>)) = []
   \<and> results (handleFiles [()] (Rejected (Thrown ''Error'' ''boom''))
        ''0.abcdefgh'' ((app_init :: nat app_state)\<lparr> results := [1, 2] \<rparr>)) = [1, 2]
   \<and> map message (toasts (handleFiles [()] (Rejected (Thrown ''Error'' ''boom''))
        ''0.abcdefgh'' ((app_init :: nat app_state)\<lparr> results := [1, 2] \<rparr>))) = [''boom'']"
proof -
  have h: "[()] \<noteq> []" by simp
  let ?st = "(app_init :: nat app_state)\<lparr> results := [1, 2] \<rparr>"
  let ?res = "\<lparr> items = Some ([] :: nat list), total_count = Some (Fin 0) \<rparr>"
  from search_completion_toasts[OF h, of ?res "''0.abcdefgh''" ?st "Thrown ''Error'' ''boom''"]
  show ?thesis
    by (simp add: uid_def slice_def app_init_def)
qed

lemma foldl_expire: "foldl expire ts is = filter (\<lambda>x. toast_id x \<notin> set is) ts"
  by (induction "is" arbitrary: ts) (auto simp: expire_def intro: filter_cong)

lemma toast_run_snoc: "toast_run st (evs @ [e]) = toast_step (toast_run st evs) e"
  by (simp add: toast_run_def)

lemma toasts_advance:
  "toasts (advance d st)
     = filter (\<lambda>x. toast_id x \<notin> set (map snd (filter (\<lambda>w. fst w \<le> now st + d) (timers st))))
         (toasts st)"
  by (simp add: advance_def Let_def foldl_expire)

lemma elapsed_snoc:
  "elapsed (evs @ [e]) = elapsed evs + (case e of Push k m r \<Rightarrow> 0 | Wait d \<Rightarrow> d)"
  by (induction evs rule: elapsed.induct) (auto split: toast_event.splits)

lemma stamps_snoc:
  "stamps t (evs @ [e])
     = stamps t evs
       @ (case e of
            Push k m r \<Rightarrow> [(t + elapsed evs, \<lparr> toast_id = uid ''toast'' r, kind = k, message = m \<rparr>)]
          | Wait d \<Rightarrow> [])"
  by (induction t evs rule: stamps.induct) (auto split: toast_event.splits)

lemma recent_push:
  "recent (evs @ [Push k m r])
     = recent evs @ [(elapsed evs, \<lparr> toast_id = uid ''toast'' r, kind = k, message = m \<rparr>)]"
  by (simp add: recent_def elapsed_snoc stamps_snoc)

lemma recent_wait:
  "recent (evs @ [Wait d]) = filter (\<lambda>p. elapsed evs + d < fst p + 3200) (recent evs)"
  by (auto simp: recent_def elapsed_snoc stamps_snoc intro: filter_cong)

lemma now_elapsed: "now (toast_run (app_init :: 'p app_state) evs) = elapsed evs"
proof (induction evs rule: rev_induct)
  case Nil
  show ?case by (simp add: toast_run_def app_init_def)
next
  case (snoc e evs)
  then show ?case
    by (cases e) (simp_all add: toast_run_snoc elapsed_snoc pushToast_def advance_def Let_def)
qed

lemma timers_recent:
  "timers (toast_run (app_init :: 'p app_state) evs)
     = map (\<lambda>p. (fst p + 3200, toast_id (snd p))) (recent evs)"
proof (induction evs rule: rev_induct)
  case Nil
  show ?case by (simp add: toast_run_def app_init_def recent_def)
next
  case (snoc e evs)
  let ?S = "toast_run (app_init :: 'p app_state) evs"
  show ?case
  proof (cases e)
    case (Push k m r)
    have "timers (toast_run (app_init :: 'p app_state) (evs @ [e]))
            = timers ?S @ [(now ?S + 3200, uid ''toast'' r)]"
      by (simp add: Push toast_run_snoc pushToast_def Let_def)
    then show ?thesis by (simp add: Push snoc.IH now_elapsed recent_push)
  next
    case (Wait d)
    have "timers (toast_run (app_init :: 'p app_state) (evs @ [e]))
            = filter (\<lambda>w. \<not> fst w \<le> now ?S + d) (timers ?S)"
      by (simp add: Wait toast_run_snoc advance_def Let_def)
    then show ?thesis
      by (simp add: Wait snoc.IH now_elapsed recent_wait filter_map comp_def not_le)
  qed
qed

lemma toasts_wait:
  "toasts (toast_run (app_init :: 'p app_state) (evs @ [Wait d]))
     = filter (\<lambda>x. toast_id x
                 \<notin> (\<lambda>p. toast_id (snd p)) ` {p \<in> set (recent evs). fst p + 3200 \<le> elapsed evs + d})
         (toasts (toast_run (app_init :: 'p app_state) evs))"
proof -
  have "set (map snd (filter (\<lambda>w. fst w \<le> elapsed evs + d)
               (map (\<lambda>p. (fst p + 3200, toast_id (snd p))) (recent evs))))
          = (\<lambda>p. toast_id (snd p)) ` {p \<in> set (recent evs). fst p + 3200 \<le> elapsed evs + d}"
    by force
  then show ?thesis
    by (simp only: toast_run_snoc toast_step.simps toasts_advance timers_recent now_elapsed)
qed

lemma toasts_push:
  "toasts (toast_run (app_init :: 'p app_state) (evs @ [Push k m r]))
     = toasts (toast_run (app_init :: 'p app_state) evs)
       @ [\<lparr> toast_id = uid ''toast'' r, kind = k, message = m \<rparr>]"
  by (simp add: toast_run_snoc pushToast_def Let_def)

lemma held_recent:
  "set (toasts (toast_run (app_init :: 'p app_state) evs)) \<subseteq> snd ` set (recent evs)"
proof (induction evs rule: rev_induct)
  case Nil
  show ?case by (simp add: toast_run_def app_init_def)
next
  case (snoc e evs)
  let ?S = "toast_run (app_init :: 'p app_state) evs"
  show ?case
  proof (cases e)
    case (Push k m r)
    with snoc.IH show ?thesis by (auto simp: toasts_push recent_push)
  next
    case (Wait d)
    show ?thesis
    proof
      fix x assume "x \<in> set (toasts (toast_run (app_init :: 'p app_state) (evs @ [e])))"
      then have x: "x \<in> set (toasts ?S)"
        and nd: "toast_id x \<notin> (\<lambda>p. toast_id (snd p))
                   ` {p \<in> set (recent evs). fst p + 3200 \<le> elapsed evs + d}"
        by (simp_all add: Wait toasts_wait)
      from x snoc.IH obtain p where p: "p \<in> set (recent evs)" "snd p = x" by auto
      with nd have "\<not> fst p + 3200 \<le> elapsed evs + d" by auto
      with p have "p \<in> set (recent (evs @ [e]))" by (simp add: Wait recent_wait)
      with p(2) show "x \<in> snd ` set (recent (evs @ [e]))" by force
    qed
  qed
qed

lemma spaced_distinct: "spaced evs \<Longrightarrow> distinct (map (\<lambda>p. toast_id (snd p)) (recent evs))"
proof -
  assume "spaced evs"
  then have "\<forall>n \<in> set [0 ..< Suc (length evs)].
               distinct (map (\<lambda>p. toast_id (snd p)) (recent (take n evs)))"
    by (simp only: spaced_def list_all_iff)
  then have "distinct (map (\<lambda>p. toast_id (snd p)) (recent (take (length evs) evs)))"
    by simp
  then show ?thesis by simp
qed

lemma spaced_prefix: "spaced (evs @ [e]) \<Longrightarrow> spaced evs"
proof -
  assume "spaced (evs @ [e])"
  then have a: "\<forall>n \<in> set [0 ..< Suc (length (evs @ [e]))].
               distinct (map (\<lambda>p. toast_id (snd p)) (recent (take n (evs @ [e]))))"
    by (simp only: spaced_def list_all_iff)
  have "\<forall>n \<in> set [0 ..< Suc (length evs)].
               distinct (map (\<lambda>p. toast_id (snd p)) (recent (take n evs)))"
  proof
    fix n assume "n \<in> set [0 ..< Suc (length evs)]"
    then have n: "n \<le> length evs" by auto
    then have "n \<in> set [0 ..< Suc (length (evs @ [e]))]" by auto
    with a have "distinct (map (\<lambda>p. toast_id (snd p)) (recent (take n (evs @ [e]))))" by blast
    with n show "distinct (map (\<lambda>p. toast_id (snd p)) (recent (take n evs)))" by simp
  qed
  then show ?thesis by (simp only: spaced_def list_all_iff)
qed

lemma filter_by_id:
  assumes "distinct (map i R)"
  shows "filter (\<lambda>p. i p \<notin> i ` {q \<in> set R. Q q}) R = filter (\<lambda>p. \<not> Q p) R"
proof (rule filter_cong[OF refl])
  fix p assume p: "p \<in> set R"
  from assms have inj: "inj_on i (set R)" by (simp add: distinct_map)
  show "(i p \<notin> i ` {q \<in> set R. Q q}) = (\<not> Q p)"
  proof
    assume "i p \<notin> i ` {q \<in> set R. Q q}"
    with p show "\<not> Q p" by blast
  next
    assume nq: "\<not> Q p"
    show "i p \<notin> i ` {q \<in> set R. Q q}"
    proof
      assume "i p \<in> i ` {q \<in> set R. Q q}"
      then obtain q where q: "q \<in> set R" "Q q" "i p = i q" by blast
      with inj p have "p = q" by (auto dest: inj_onD)
      with q nq show False by simp
    qed
  qed
qed

lemma held_exact:
  "spaced evs \<Longrightarrow> toasts (toast_run (app_init :: 'p app_state) evs) = map snd (recent evs)"
proof (induction evs rule: rev_induct)
  case Nil
  show ?case by (simp add: toast_run_def app_init_def recent_def)
next
  case (snoc e evs)
  from snoc.prems have sp: "spaced evs" by (rule spaced_prefix)
  note ih = snoc.IH[OF sp]
  show ?case
  proof (cases e)
    case (Push k m r)
    with ih show ?thesis by (simp add: toasts_push recent_push)
  next
    case (Wait d)
    let ?Q = "\<lambda>p. fst p + 3200 \<le> elapsed evs + d"
    have "toasts (toast_run (app_init :: 'p app_state) (evs @ [e]))
            = filter (\<lambda>x. toast_id x \<notin> (\<lambda>p. toast_id (snd p)) ` {p \<in> set (recent evs). ?Q p})
                (map snd (recent evs))"
      by (simp only: Wait toasts_wait ih)
    also have "\<dots> = map snd (filter (\<lambda>p. toast_id (snd p)
                 \<notin> (\<lambda>p. toast_id (snd p)) ` {p \<in> set (recent evs). ?Q p}) (recent evs))"
      by (simp add: filter_map comp_def)
    also have "\<dots> = map snd (filter (\<lambda>p. \<not> ?Q p) (recent evs))"
      using filter_by_id[OF spaced_distinct[OF sp], of ?Q] by simp
    also have "\<dots> = map snd (recent (evs @ [e]))"
      by (simp add: Wait recent_wait not_le)
    finally show ?thesis .
  qed
qed

text \<open>
  C9, as stated: no two toasts of the list ever share an identifier. It fails when two
  draws of \<open>Math.random\<close> agree on the six characters that \<open>uid\<close> keeps.
\<close>

theorem toasts_same_id:
  "\<not> distinct (map toast_id (toasts (toast_run (app_init :: unit app_state)
       [Push kind_info ''a'' ''0.abcdefgh'', Push kind_info ''b'' ''0.abcdefzz''])))"
  by (simp add: toast_run_def pushToast_def uid_def slice_def app_init_def Let_def)

text \<open>
  C9, amended: after any sequence of toast creations and waits, the clock shows the time
  waited, the pending timers are those of the toasts pushed less than 3200 ms ago, and
  every toast in the list is one of these: no toast outlives its 3200 ms. If at no
  moment two toasts pushed within the last 3200 ms carry the same identifier, the list
  holds exactly the toasts pushed less than 3200 ms ago, and their identifiers are
  pairwise distinct. A toast is pushed with the identifier \<open>toast_\<close> plus the
  characters \<open>uid\<close> keeps, and with a timer due 3200 ms later.
\<close>

theorem toasts_held:
  "now (toast_run (app_init :: 'p app_state) evs) = elapsed evs
   \<and> timers (toast_run (app_init :: 'p app_state) evs)
       = map (\<lambda>p. (fst p + 3200, toast_id (snd p))) (recent evs)
   \<and> set (toasts (toast_run (app_init :: 'p app_state) evs)) \<subseteq> snd ` set (recent evs)
   \<and> (spaced evs \<longrightarrow>
         toasts (toast_run (app_init :: 'p app_state) evs) = map snd (recent evs)
         \<and> distinct (map toast_id (toasts (toast_run (app_init :: 'p app_state) evs))))
   \<and> toasts (pushToast k m r st)
       = toasts st @ [\<lparr> toast_id = ''toast_'' @ slice 2 8 r, kind = k, message = m \<rparr>]
   \<and> timers (pushToast k m r st)
       = timers st @ [(now st + 3200, ''toast_'' @ slice 2 8 r)]"
proof -
  have d: "spaced evs \<Longrightarrow>
           distinct (map toast_id (toasts (toast_run (app_init :: 'p app_state) evs)))"
    using spaced_distinct[of evs] by (simp add: held_exact comp_def)
  have e: "toasts (pushToast k m r st)
       = toasts st @ [\<lparr> toast_id = ''toast_'' @ slice 2 8 r, kind = k, message = m \<rparr>]"
    by (simp add: pushToast_def uid_def Let_def)
  have f: "timers (pushToast k m r st)
       = timers st @ [(now st + 3200, ''toast_'' @ slice 2 8 r)]"
    by (simp add: pushToast_def uid_def Let_def)
  from now_elapsed timers_recent held_recent held_exact d e f show ?thesis by blast
qed


theorem toasts_held_witness:
  "spaced [Push kind_info ''a'' ''0.abcdefgh'', Wait 3200, Push kind_error ''b'' ''0.abcdefgh'',
           Wait 1000]
   \<and> toasts (toast_run (app_init :: unit app_state)
        [Push kind_info ''a'' ''0.abcdefgh'', Wait 3200, Push kind_error ''b'' ''0.abcdefgh'',
         Wait 1000])
       = [\<lparr> toast_id = ''toast_abcdef'', kind = kind_error, message = ''b'' \<rparr>]
   \<and> distinct (map toast_id (toasts (toast_run (app_init :: unit app_state)
        [Push kind_info ''a'' ''0.abcdefgh'', Wait 3200, Push kind_error ''b'' ''0.abcdefgh'',
         Wait 1000])))
   \<and> now (toast_run (app_init :: unit app_state)
        [Push kind_info ''a'' ''0.abcdefgh'', Wait 3200, Push kind_error ''b'' ''0.abcdefgh'',
         Wait 1000]) = 4200
   \<and> toasts (toast_run (app_init :: unit app_state)
        [Push kind_info ''a'' ''0.abcdefgh'', Wait 3199, Wait 3199]) = []"
proof -
  let ?evs = "[Push kind_info ''a'' ''0.abcdefgh'', Wait 3200, Push kind_error ''b'' ''0.abcdefgh'',
               Wait 1000]"
  let ?evs2 = "[Push kind_info ''a'' ''0.abcdefgh'', Wait 3199, Wait 3199]"
  have h: "spaced ?evs"
    by (simp add: spaced_def recent_def upt_rec)
  have r: "map snd (recent ?evs)
             = [\<lparr> toast_id = ''toast_abcdef'', kind = kind_error, message = ''b'' \<rparr>]"
    by (simp add: recent_def uid_def slice_def)
  have r2: "recent ?evs2 = []" by (simp add: recent_def)
  note t = toasts_held[where evs = ?evs and ?'p = unit]
  from t h have a: "toasts (toast_run (app_init :: unit app_state) ?evs) = map snd (recent ?evs)"
    by blast
  from t h have b: "distinct (map toast_id (toasts (toast_run (app_init :: unit app_state) ?evs)))"
    by blast
  from t have "now (toast_run (app_init :: unit app_state) ?evs) = elapsed ?evs" by blast
  then have c: "now (toast_run (app_init :: unit app_state) ?evs) = 4200" by simp
  from toasts_held[where evs = ?evs2 and ?'p = unit]
  have "set (toasts (toast_run (app_init :: unit app_state) ?evs2)) \<subseteq> snd ` set (recent ?evs2)"
    by blast
  then have d: "toasts (toast_run (app_init :: unit app_state) ?evs2) = []"
    by (simp add: r2)
  from a have a': "toasts (toast_run (app_init :: unit app_state) ?evs)
      = [\<lparr> toast_id = ''toast_abcdef'', kind = kind_error, message = ''b'' \<rparr>]"
    by (simp only: r)
  from h a' b c d show ?thesis by blast
qed

section \<open>Properties of the HTTP client\<close>

lemma apiRequest_refused:
  "fst (fetch E (api_request E path opts)) = Resolved res \<Longrightarrow> \<not> ok res \<Longrightarrow>
   fst (apiRequest E path opts) = Rejected (api_error E res (json_or_null res))"
  by (cases "fetch E (api_request E path opts)") (simp add: apiRequest_def)

lemma uploadAndSearch_refused:
  "fst (fetch E (search_request E files filters sg)) = Resolved res \<Longrightarrow> \<not> ok res \<Longrightarrow>
   fst (uploadAndSearch E files filters sg) = Rejected (Thrown ''Error'' (search_error_message res))"
  by (cases "fetch E (search_request E files filters sg)") (simp add: uploadAndSearch_def)

lemma api_error_eq:
  "api_error E res p =
     (case js_or (get_prop p ''message'') (get_prop p ''detail'') of
        None \<Rightarrow> Thrown ''Error'' (''API error '' @ show_nat (status res) @ '' '' @ statusText res)
      | Some v \<Rightarrow>
          if truthy v
          then (case ToString E v of Inl e \<Rightarrow> e | Inr s \<Rightarrow> Thrown ''Error'' s)
          else Thrown ''Error'' (''API error '' @ show_nat (status res) @ '' '' @ statusText res))"
  by (simp add: api_error_def new_Error_def js_or_def split: option.splits)

lemma api_error_string:
  "get_prop p ''message'' = Some (JStr s) \<Longrightarrow> s \<noteq> [] \<Longrightarrow> api_error E res p = Thrown ''Error'' s"
  by (simp add: api_error_eq js_or_def)

lemma api_error_detail_string:
  "get_prop p ''message'' = None \<Longrightarrow> get_prop p ''detail'' = Some (JStr s) \<Longrightarrow> s \<noteq> [] \<Longrightarrow>
   api_error E res p = Thrown ''Error'' s"
  by (simp add: api_error_eq js_or_def)

lemma api_error_not_json:
  "json_body res = Inl e \<Longrightarrow>
   api_error E res (json_or_null res)
     = Thrown ''Error'' (''API error '' @ show_nat (status res) @ '' '' @ statusText res)"
  by (simp add: api_error_eq js_or_def json_or_null_def)

lemma api_error_toString:
  "get_prop p ''message'' = Some (JObj kvs) \<Longrightarrow> ''toString'' \<in> fst ` set kvs \<Longrightarrow>
   api_error E res p = Thrown ''TypeError'' (TypeError_text E)"
  by (simp add: api_error_eq js_or_def)

lemma file_entries_keys:
  "map fst (map (\<lambda>(i, f). (''files'', g i f)) (enumerate n files)) = replicate (length files) ''files''"
  by (induction files arbitrary: n) auto

lemma file_entries_all:
  "filter (\<lambda>e. fst e = ''files'') (map (\<lambda>(i, f). (''files'', g i f)) (enumerate n files))
     = map (\<lambda>(i, f). (''files'', g i f)) (enumerate n files)"
  by (induction files arbitrary: n) auto

lemma file_entries_none:
  "filter (\<lambda>e. fst e = ''filters'') (map (\<lambda>(i, f). (''files'', g i f)) (enumerate n files)) = []"
  by (induction files arbitrary: n) auto

lemma file_entries_files:
  "files_of (map (\<lambda>(i, f). FileValue f (h i f)) (enumerate n files)) = files"
  by (induction files arbitrary: n) (auto simp: files_of_def)

lemma keys_toApiFilters:
  "Object_keys (toApiFilters f)
     = [''query'', ''category'', ''price'', ''colors'', ''inStock'', ''detectedTags'', ''sort'']"
  by (simp add: Object_keys_def toApiFilters_def present_def split: option.splits)

lemma set_has_key: "some_filter_set fl \<Longrightarrow> Object_keys fl \<noteq> []"
  by (auto simp: some_filter_set_def is_set_def Object_keys_def present_def split: property.splits)

text \<open>
  C1, as stated: every call, \<open>uploadAndSearch\<close> included, reports a non-2xx response by
  the \<open>message\<close> or \<open>detail\<close> field of the JSON body. It fails for
  \<open>uploadAndSearch\<close>: on the response 500 with the body \<open>{"detail":"bad"}\<close> its error
  carries the whole body text, where \<open>getHealth\<close> carries \<open>bad\<close>.
\<close>

theorem search_error_not_parsed:
  \<open>fst (uploadAndSearch refusing [] None None) = Rejected (Thrown ''Error'' ''{"detail":"bad"}'')
   \<and> fst (getHealth refusing None) = Rejected (Thrown ''Error'' ''bad'')\<close>
  by (simp add: uploadAndSearch_def getHealth_def apiRequest_def standard_fetch_def
      search_request_def api_request_def GET_def refusing_def refused_def ok_def
      search_error_message_def api_error_def new_Error_def js_or_def json_or_null_def)

text \<open>
  C1, amended: a call made through \<open>apiRequest\<close> (\<open>getHealth\<close>, \<open>getCategories\<close>,
  \<open>getTags\<close>, \<open>precomputeEmbeddings\<close>, \<open>getProduct\<close>) that receives a non-2xx
  response throws an \<open>Error\<close> whose message is the string conversion of the \<open>message\<close>
  field of the JSON body when that is truthy, else of its \<open>detail\<close> field when that is
  truthy, else \<open>API error\<close> with the status and the status text; the last also when
  the body is not JSON. Where the conversion itself throws (the field is an object with
  a key \<open>toString\<close> of its own, or an array that holds one), the call rejects with that
  \<open>TypeError\<close>. \<open>uploadAndSearch\<close> does not parse the body: its \<open>Error\<close> carries the
  text of the body when that is not empty, else \<open>Search failed:\<close> with the status and
  the status text.
\<close>

theorem error_policy:
  assumes "\<not> ok res"
  shows "(fst (fetch E (api_request E path opts)) = Resolved res \<longrightarrow>
            fst (apiRequest E path opts)
              = Rejected
                  (case js_or (get_prop (json_or_null res) ''message'')
                          (get_prop (json_or_null res) ''detail'') of
                     None \<Rightarrow> Thrown ''Error''
                              (''API error '' @ show_nat (status res) @ '' '' @ statusText res)
                   | Some v \<Rightarrow>
                       if truthy v
                       then (case ToString E v of Inl e \<Rightarrow> e | Inr s \<Rightarrow> Thrown ''Error'' s)
                       else Thrown ''Error''
                              (''API error '' @ show_nat (status res) @ '' '' @ statusText res))
            \<and> (\<forall>s. get_prop (json_or_null res) ''message'' = Some (JStr s) \<and> s \<noteq> [] \<longrightarrow>
                   fst (apiRequest E path opts) = Rejected (Thrown ''Error'' s))
            \<and> (\<forall>s. get_prop (json_or_null res) ''message'' = None
                    \<and> get_prop (json_or_null res) ''detail'' = Some (JStr s) \<and> s \<noteq> [] \<longrightarrow>
                   fst (apiRequest E path opts) = Rejected (Thrown ''Error'' s))
            \<and> (\<forall>kvs. get_prop (json_or_null res) ''message'' = Some (JObj kvs)
                    \<and> ''toString'' \<in> fst ` set kvs \<longrightarrow>
                   fst (apiRequest E path opts)
                     = Rejected (Thrown ''TypeError'' (TypeError_text E)))
            \<and> (\<forall>e. json_body res = Inl e \<longrightarrow>
                   fst (apiRequest E path opts)
                     = Rejected (Thrown ''Error''
                         (''API error '' @ show_nat (status res) @ '' '' @ statusText res))))
         \<and> (fst (fetch E (search_request E files filters sg)) = Resolved res \<longrightarrow>
              fst (uploadAndSearch E files filters sg)
                = Rejected (Thrown ''Error''
                    (case text_body res of
                       None \<Rightarrow> ''Search failed: '' @ show_nat (status res) @ '' '' @ statusText res
                     | Some t \<Rightarrow>
                         if t \<noteq> [] then t
                         else ''Search failed: '' @ show_nat (status res) @ '' '' @ statusText res)))
         \<and> getHealth E sg = apiRequest E ''/health'' (GET sg)
         \<and> getCategories E sg = apiRequest E ''/categories'' (GET sg)
         \<and> getTags E sg = apiRequest E ''/tags'' (GET sg)
         \<and> precomputeEmbeddings E sg = apiRequest E ''/precompute'' (POST sg)
         \<and> getProduct E ident sg = apiRequest E (''/products/'' @ encodeURIComponent ident) (GET sg)"
proof -
  have a: "fst (fetch E (api_request E path opts)) = Resolved res \<Longrightarrow>
           fst (apiRequest E path opts) = Rejected (api_error E res (json_or_null res))"
    using assms by (simp add: apiRequest_refused)
  have b: "fst (fetch E (search_request E files filters sg)) = Resolved res \<Longrightarrow>
           fst (uploadAndSearch E files filters sg)
             = Rejected (Thrown ''Error'' (search_error_message res))"
    using assms by (simp add: uploadAndSearch_refused)
  have c: "search_error_message res
           = (case text_body res of
                None \<Rightarrow> ''Search failed: '' @ show_nat (status res) @ '' '' @ statusText res
              | Some t \<Rightarrow>
                  if t \<noteq> [] then t
                  else ''Search failed: '' @ show_nat (status res) @ '' '' @ statusText res)"
    by (simp add: search_error_message_def split: option.splits)
  show ?thesis
    using a b
    by (simp add: c api_error_eq[symmetric] api_error_string api_error_detail_string
        api_error_not_json api_error_toString getHealth_def getCategories_def getTags_def
        precomputeEmbeddings_def getProduct_def product_path_def)
qed

theorem error_policy_witness:
  \<open>\<not> ok refused
   \<and> fst (fetch refusing (api_request refusing ''/tags'' (GET None))) = Resolved refused
   \<and> fst (getTags refusing None) = Rejected (Thrown ''Error'' ''bad'')
   \<and> fst (fetch refusing (search_request refusing [] None None)) = Resolved refused
   \<and> fst (uploadAndSearch refusing [] None None)
       = Rejected (Thrown ''Error'' ''{"detail":"bad"}'')
   \<and> \<not> ok refused_toString
   \<and> fst (getTags (refusing\<lparr> fetch := standard_fetch (\<lambda>req. Resolved refused_toString) \<rparr>) None)
       = Rejected (Thrown ''TypeError'' ''Cannot convert object to primitive value'')\<close>
proof -
  let ?E2 = "refusing\<lparr> fetch := standard_fetch (\<lambda>req. Resolved refused_toString) \<rparr>"
  have h: "\<not> ok refused" by (simp add: ok_def refused_def)
  have h2: "\<not> ok refused_toString" by (simp add: ok_def refused_toString_def)
  have f1: "fst (fetch refusing (api_request refusing ''/tags'' (GET None))) = Resolved refused"
    by (simp add: standard_fetch_def api_request_def GET_def refusing_def)
  have f2: "fst (fetch refusing (search_request refusing [] None None)) = Resolved refused"
    by (simp add: standard_fetch_def search_request_def refusing_def)
  have f3: "fst (fetch ?E2 (api_request ?E2 ''/tags'' (GET None))) = Resolved refused_toString"
    by (simp add: standard_fetch_def api_request_def GET_def refusing_def)
  have m: "get_prop (json_or_null refused) ''message'' = None
           \<and> get_prop (json_or_null refused) ''detail'' = Some (JStr ''bad'') \<and> ''bad'' \<noteq> []"
    by (simp add: json_or_null_def refused_def)
  have m3: "get_prop (json_or_null refused_toString) ''message'' = Some (JObj [(''toString'', JNull)])
            \<and> ''toString'' \<in> fst ` set [(''toString'', JNull)]"
    by (simp add: json_or_null_def refused_toString_def)
  note t = error_policy[OF h, where E = refusing and path = "''/tags''" and opts = "GET None"
      and files = "[]" and filters = None and sg = None]
  note t3 = error_policy[OF h2, where E = ?E2 and path = "''/tags''" and opts = "GET None"
      and sg = None]
  from t f1 m have g1: "fst (apiRequest refusing ''/tags'' (GET None)) = Rejected (Thrown ''Error'' ''bad'')"
    by blast
  from t have g0: "getTags refusing None = apiRequest refusing ''/tags'' (GET None)"
    by blast
  from t f2 have g2: \<open>fst (uploadAndSearch refusing [] None None)
       = Rejected (Thrown ''Error'' ''{"detail":"bad"}'')\<close>
    by (simp add: refused_def)
  from t3 f3 m3 have g3: "fst (apiRequest ?E2 ''/tags'' (GET None))
       = Rejected (Thrown ''TypeError'' (TypeError_text ?E2))"
    by blast
  from t3 have g4: "getTags ?E2 None = apiRequest ?E2 ''/tags'' (GET None)"
    by blast
  have tx: "TypeError_text ?E2 = ''Cannot convert object to primitive value''"
    by (simp add: refusing_def)
  from h f1 f2 g1 g2 g0 h2 g3 g4 show ?thesis by (simp add: tx)
qed

text \<open>
  C4, as stated: the body has a \<open>filters\<close> field exactly when at least one filter is
  set. It fails on a filters object whose only key, \<open>query\<close>, holds \<open>undefined\<close>: no
  filter is set, and the field is there.
\<close>

theorem filters_field_without_filter:
  "\<not> some_filter_set query_undefined
   \<and> length (getAll (buildSearchForm refusing [] (Some query_undefined)) ''filters'') = 1"
  by (simp add: some_filter_set_def is_set_def query_undefined_def getAll_def
      buildSearchForm_def Object_keys_def present_def refusing_def)

text \<open>
  C4, amended: the body holds one \<open>files\<close> entry per file, in the order of the list,
  each under the name of the file (\<open>image_i.jpg\<close> for a file without a name), and then
  a single \<open>filters\<close> field, the JSON text of the filters, exactly when a filters object
  is given and has at least one key, whether or not a key holds a value. So the field
  is there whenever a filter is set, and always for the filters that the root component
  builds.
\<close>

theorem buildSearchForm_fields:
  "getAll (buildSearchForm E files filters) ''files''
     = map (\<lambda>(i, f). FileValue f (if name f \<noteq> [] then name f else ''image_'' @ show_nat i @ ''.jpg''))
         (enumerate 0 files)
   \<and> files_of (getAll (buildSearchForm E files filters) ''files'') = files
   \<and> getAll (buildSearchForm E files filters) ''filters''
       = (case filters of
            None \<Rightarrow> []
          | Some fl \<Rightarrow> if Object_keys fl \<noteq> [] then [StringValue (JSON_stringify E fl)] else [])
   \<and> map fst (buildSearchForm E files filters)
       = replicate (length files) ''files''
         @ replicate (length (getAll (buildSearchForm E files filters) ''filters'')) ''filters''
   \<and> (\<forall>fl. filters = Some fl \<and> some_filter_set fl \<longrightarrow>
         getAll (buildSearchForm E files filters) ''filters'' = [StringValue (JSON_stringify E fl)])
   \<and> getAll (buildSearchForm E files (Some (toApiFilters f))) ''filters''
       = [StringValue (JSON_stringify E (toApiFilters f))]"
proof -
  let ?g = "\<lambda>i f. FileValue f (if name f \<noteq> [] then name f else ''image_'' @ show_nat i @ ''.jpg'')"
  let ?fs = "map (\<lambda>(i, f). (''files'', ?g i f)) (enumerate 0 files)"
  let ?tail = "(case filters of
            None \<Rightarrow> []
          | Some fl \<Rightarrow> if Object_keys fl \<noteq> [] then [(''filters'', StringValue (JSON_stringify E fl))] else [])"
  have form: "buildSearchForm E files filters = ?fs @ ?tail"
    by (simp add: buildSearchForm_def split: option.splits)
  have snd_fs: "map snd ?fs = map (\<lambda>(i, f). ?g i f) (enumerate 0 files)"
    by (simp add: case_prod_unfold)
  have a: "getAll (buildSearchForm E files filters) ''files''
             = map (\<lambda>(i, f). ?g i f) (enumerate 0 files)"
    unfolding form getAll_def using file_entries_all[of ?g 0 files] snd_fs
    by (simp split: option.splits)
  have b: "files_of (getAll (buildSearchForm E files filters) ''files'') = files"
    unfolding a by (rule file_entries_files)
  have c: "getAll (buildSearchForm E files filters) ''filters''
       = (case filters of
            None \<Rightarrow> []
          | Some fl \<Rightarrow> if Object_keys fl \<noteq> [] then [StringValue (JSON_stringify E fl)] else [])"
    unfolding form getAll_def using file_entries_none[of ?g 0 files]
    by (simp split: option.splits)
  have d: "map fst (buildSearchForm E files filters)
       = replicate (length files) ''files''
         @ replicate (length (getAll (buildSearchForm E files filters) ''filters'')) ''filters''"
    unfolding c unfolding form using file_entries_keys[of ?g 0 files]
    by (simp split: option.splits)
  have e: "\<forall>fl. filters = Some fl \<and> some_filter_set fl \<longrightarrow>
         getAll (buildSearchForm E files filters) ''filters'' = [StringValue (JSON_stringify E fl)]"
    unfolding c using set_has_key by auto
  have c': "getAll (buildSearchForm E files (Some (toApiFilters f))) ''filters''
       = [StringValue (JSON_stringify E (toApiFilters f))]"
    unfolding buildSearchForm_def getAll_def using file_entries_none[of ?g 0 files]
    by (simp add: keys_toApiFilters)
  from a b c d e c' show ?thesis by blast
qed

theorem buildSearchForm_fields_witness:
  "some_filter_set (toApiFilters DEFAULTS)
   \<and> map fst (buildSearchForm refusing
          [\<lparr> name = [], content = [] \<rparr>, \<lparr> name = ''a.png'', content = [] \<rparr>]
          (Some (toApiFilters DEFAULTS)))
       = [''files'', ''files'', ''filters'']
   \<and> getAll (buildSearchForm refusing
          [\<lparr> name = [], content = [] \<rparr>, \<lparr> name = ''a.png'', content = [] \<rparr>]
          (Some (toApiFilters DEFAULTS))) ''files''
       = [FileValue \<lparr> name = [], content = [] \<rparr> ''image_0.jpg'',
          FileValue \<lparr> name = ''a.png'', content = [] \<rparr> ''a.png'']
   \<and> getAll (buildSearchForm refusing
          [\<lparr> name = [], content = [] \<rparr>, \<lparr> name = ''a.png'', content = [] \<rparr>]
          (Some (toApiFilters DEFAULTS))) ''filters''
       = [StringValue (JSON_stringify refusing (toApiFilters DEFAULTS))]"
proof -
  let ?files = "[\<lparr> name = [], content = [] \<rparr>, \<lparr> name = ''a.png'', content = [] \<rparr>]"
  let ?form = "buildSearchForm refusing ?files (Some (toApiFilters DEFAULTS))"
  have h: "some_filter_set (toApiFilters DEFAULTS)"
    by (simp add: some_filter_set_def is_set_def toApiFilters_def)
  note t = buildSearchForm_fields[where E = refusing and filters = "Some (toApiFilters DEFAULTS)"
      and files = ?files]
  from t h have g: "getAll ?form ''filters''
                      = [StringValue (JSON_stringify refusing (toApiFilters DEFAULTS))]"
    by blast
  from t have "map fst ?form
      = replicate (length ?files) ''files'' @ replicate (length (getAll ?form ''filters'')) ''filters''"
    by blast
  then have k: "map fst ?form = [''files'', ''files'', ''filters'']"
    by (simp add: g)
  from t have "getAll ?form ''files''
      = map (\<lambda>(i, f). FileValue f (if name f \<noteq> [] then name f
                                     else ''image_'' @ show_nat i @ ''.jpg''))
          (enumerate 0 ?files)"
    by blast
  then have f: "getAll ?form ''files''
      = [FileValue \<lparr> name = [], content = [] \<rparr> ''image_0.jpg'',
         FileValue \<lparr> name = ''a.png'', content = [] \<rparr> ''a.png'']"
    by (simp add: show_nat.simps)
  from h k f g show ?thesis by blast
qed

text \<open>
  C8, as stated: \<open>uploadAndSearch\<close> with a token that is already aborted sends no
  request and rejects with an error that can be told from the \<open>Error\<close> of a non-2xx
  response. It fails for a signal aborted with an \<open>Error\<close> as its reason: the call
  rejects with that very \<open>Error\<close>, here the one a 500 response with an empty body
  gives. And a token cancelled through \<open>withAbort\<close> does not stop \<open>run(files)\<close>: the
  request is sent.
\<close>

theorem abort_reason_is_Error:
  "uploadAndSearch refusing_empty [\<lparr> name = ''shoe.png'', content = [] \<rparr>] None
       (Some aborted_with_Error)
     = (Rejected (Thrown ''Error'' ''Search failed: 500 Internal Server Error''), [])
   \<and> fst (uploadAndSearch refusing_empty [\<lparr> name = ''shoe.png'', content = [] \<rparr>] None None)
     = Rejected (Thrown ''Error'' ''Search failed: 500 Internal Server Error'')
   \<and> aborted (cancel refusing_empty new_controller)
   \<and> length (snd (run refusing_empty (cancel refusing_empty new_controller)
                 [\<lparr> name = ''shoe.png'', content = [] \<rparr>] Omitted)) = 1"
  by (simp add: uploadAndSearch_def standard_fetch_def search_request_def refusing_empty_def
      refusing_def refused_empty_def aborted_with_Error_def ok_def search_error_message_def
      show_nat.simps run_def cancel_def aborted_def new_controller_def)

text \<open>
  C8, amended: where \<open>fetch\<close> takes the abort steps of the Fetch standard,
  \<open>uploadAndSearch\<close> with a signal that is already aborted sends no request and
  rejects with the abort reason of the signal. The \<open>Error\<close> thrown for a non-2xx
  response has the name \<open>Error\<close>; the reason that \<open>cancel\<close> gives the signal of
  \<open>withAbort\<close> is named \<open>AbortError\<close>, and \<open>run(files, filters)\<close> after \<open>cancel\<close>
  sends no request and rejects with it.
\<close>

theorem aborted_search_rejects:
  assumes "abort_steps E" and "reason sg = Some e"
  shows "uploadAndSearch E files filters (Some sg) = (Rejected e, [])
         \<and> (\<forall>res sg'. fst (fetch E (search_request E files filters sg')) = Resolved res \<and> \<not> ok res \<longrightarrow>
               (\<exists>m. fst (uploadAndSearch E files filters sg') = Rejected (Thrown ''Error'' m)))
         \<and> reason (cancel E new_controller) = Some (Thrown ''AbortError'' (AbortError_text E))
         \<and> run E (cancel E new_controller) files (Passed filters)
             = (Rejected (Thrown ''AbortError'' (AbortError_text E)), [])"
proof -
  have f: "\<And>s x. reason s = Some x \<Longrightarrow>
             fetch E (search_request E files filters (Some s)) = (Rejected x, [])"
    using assms(1) by (simp add: abort_steps_def search_request_def)
  have a: "uploadAndSearch E files filters (Some sg) = (Rejected e, [])"
    using f[OF assms(2)] by (simp add: uploadAndSearch_def)
  have b: "\<forall>res sg'. fst (fetch E (search_request E files filters sg')) = Resolved res \<and> \<not> ok res \<longrightarrow>
               (\<exists>m. fst (uploadAndSearch E files filters sg') = Rejected (Thrown ''Error'' m))"
    by (simp add: uploadAndSearch_refused)
  have c: "reason (cancel E new_controller) = Some (Thrown ''AbortError'' (AbortError_text E))"
    by (simp add: cancel_def aborted_def new_controller_def)
  have d: "run E (cancel E new_controller) files (Passed filters)
             = (Rejected (Thrown ''AbortError'' (AbortError_text E)), [])"
    using f[OF c] by (simp add: run_def uploadAndSearch_def)
  from a b c d show ?thesis by blast
qed

theorem aborted_search_rejects_witness:
  "abort_steps refusing
   \<and> reason (cancel refusing new_controller) = Some (Thrown ''AbortError'' ''The operation was aborted'')
   \<and> uploadAndSearch refusing [\<lparr> name = ''shoe.png'', content = [] \<rparr>] None
        (Some (cancel refusing new_controller))
       = (Rejected (Thrown ''AbortError'' ''The operation was aborted''), [])
   \<and> run refusing (cancel refusing new_controller) [\<lparr> name = ''shoe.png'', content = [] \<rparr>]
        (Passed None)
       = (Rejected (Thrown ''AbortError'' ''The operation was aborted''), [])
   \<and> (\<exists>m. fst (uploadAndSearch refusing [\<lparr> name = ''shoe.png'', content = [] \<rparr>] None
        (Some new_controller)) = Rejected (Thrown ''Error'' m))"
proof -
  let ?files = "[\<lparr> name = ''shoe.png'', content = [] \<rparr>]"
  have h: "abort_steps refusing"
    by (simp add: abort_steps_def refusing_def standard_fetch_def)
  have r: "reason (cancel refusing new_controller)
             = Some (Thrown ''AbortError'' ''The operation was aborted'')"
    by (simp add: cancel_def aborted_def new_controller_def refusing_def)
  have tx: "AbortError_text refusing = ''The operation was aborted''"
    by (simp add: refusing_def)
  have f: "fst (fetch refusing (search_request refusing ?files None (Some new_controller)))
             = Resolved refused \<and> \<not> ok refused"
    by (simp add: standard_fetch_def search_request_def refusing_def ok_def refused_def
        new_controller_def)
  note t = aborted_search_rejects[OF h r, where files = ?files and filters = None]
  from t have a: "uploadAndSearch refusing ?files None (Some (cancel refusing new_controller))
       = (Rejected (Thrown ''AbortError'' ''The operation was aborted''), [])"
    by blast
  from t have b: "run refusing (cancel refusing new_controller) ?files (Passed None)
       = (Rejected (Thrown ''AbortError'' (AbortError_text refusing)), [])"
    by blast
  from t f have c: "\<exists>m. fst (uploadAndSearch refusing ?files None (Some new_controller))
       = Rejected (Thrown ''Error'' m)"
    by blast
  from b have b': "run refusing (cancel refusing new_controller) ?files (Passed None)
       = (Rejected (Thrown ''AbortError'' ''The operation was aborted''), [])"
    by (simp only: tx)
  from h r a b' c show ?thesis by blast
qed

lemma hex_nth_mem: "i < 16 \<Longrightarrow> ''0123456789ABCDEF'' ! i \<in> set ''0123456789ABCDEF''"
  by (rule nth_mem) simp

lemma hex_nth_inj:
  assumes "i < 16" "j < 16" "''0123456789ABCDEF'' ! i = ''0123456789ABCDEF'' ! j"
  shows "i = j"
proof -
  have d: "distinct ''0123456789ABCDEF''" by simp
  have l: "length ''0123456789ABCDEF'' = 16" by simp
  from assms show ?thesis
    using nth_eq_iff_index_eq[OF d, of i j] by (simp only: l)
qed

lemma hex_nth_2: "i < 16 \<Longrightarrow> ''0123456789ABCDEF'' ! i = CHR ''2'' \<Longrightarrow> i = 2"
  using hex_nth_inj[of i 2] by simp

lemma hex_nth_E: "i < 16 \<Longrightarrow> ''0123456789ABCDEF'' ! i = CHR ''E'' \<Longrightarrow> i = 14"
  using hex_nth_inj[of i 14] by simp

lemma hex_nth_e: "i < 16 \<Longrightarrow> ''0123456789ABCDEF'' ! i \<noteq> CHR ''e''"
  using hex_nth_mem[of i] by auto

lemma of_char_lt: "(of_char c :: nat) < 256"
  by (cases c) (simp add: of_char_def)


lemma enc_Cons: "encodeURIComponent (c # cs) = encode_unit c @ encodeURIComponent cs"
  by (simp add: encodeURIComponent_def)

lemma unescaped_not_special:
  "uriUnescaped c \<Longrightarrow> c \<noteq> CHR ''/'' \<and> c \<noteq> CHR ''?'' \<and> c \<noteq> CHR ''#'' \<and> c \<noteq> CHR ''%''"
  by (auto simp: uriUnescaped_def)

lemma utf8_first:
  "\<exists>b bs. utf8 (of_char c) = b # bs \<and> b < 256 \<and> (\<forall>x \<in> set bs. x < 256)
     \<and> (b = of_char c \<or> 192 \<le> b)"
proof -
  let ?n = "of_char c :: nat"
  have n: "?n < 256" by (rule of_char_lt)
  show ?thesis
  proof (cases "?n < 128")
    case True
    then show ?thesis by (simp add: utf8_def)
  next
    case False
    from n have "192 + ?n div 64 < 256" "128 + ?n mod 64 < 256" by arith+
    with False show ?thesis by (simp add: utf8_def)
  qed
qed

lemma percent_chars:
  "b < 256 \<Longrightarrow> x \<in> set (percent b) \<Longrightarrow> x \<in> set ''%0123456789ABCDEF''"
proof -
  assume b: "b < 256" and x: "x \<in> set (percent b)"
  from b have "b div 16 < 16" "b mod 16 < 16" by auto
  then have "''0123456789ABCDEF'' ! (b div 16) \<in> set ''0123456789ABCDEF''"
    "''0123456789ABCDEF'' ! (b mod 16) \<in> set ''0123456789ABCDEF''"
    by (simp_all only: hex_nth_mem)
  with x show ?thesis unfolding percent_def by auto
qed

lemma encode_unit_chars:
  assumes "x \<in> set (encode_unit c)"
  shows "x \<noteq> CHR ''/'' \<and> x \<noteq> CHR ''?'' \<and> x \<noteq> CHR ''#''"
proof (cases "uriUnescaped c")
  case True
  with assms unescaped_not_special[of c] show ?thesis by (simp add: encode_unit_def)
next
  case False
  with assms obtain b where "b \<in> set (utf8 (of_char c))" "x \<in> set (percent b)"
    by (auto simp: encode_unit_def)
  moreover from utf8_first[of c] have "\<forall>b \<in> set (utf8 (of_char c)). b < 256" by auto
  ultimately have "x \<in> set ''%0123456789ABCDEF''" using percent_chars by blast
  then show ?thesis by auto
qed

lemma encodeURIComponent_chars:
  "x \<in> set (encodeURIComponent s) \<Longrightarrow> x \<noteq> CHR ''/'' \<and> x \<noteq> CHR ''?'' \<and> x \<noteq> CHR ''#''"
  using encode_unit_chars by (auto simp: encodeURIComponent_def)

lemma of_char_dot: "(of_char c :: nat) = 46 \<Longrightarrow> c = CHR ''.''"
proof -
  assume "(of_char c :: nat) = 46"
  then have "(of_char c :: nat) = of_char CHR ''.''" by simp
  then show ?thesis by (simp only: of_char_eq_iff)
qed

lemma percent_not_dot:
  assumes "b < 256" "b \<noteq> 46"
  shows "\<exists>h1 h2. percent b = [CHR ''%'', h1, h2]
           \<and> \<not> (h1 = CHR ''2'' \<and> (h2 = CHR ''E'' \<or> h2 = CHR ''e''))"
proof -
  from assms(1) have d: "b div 16 < 16" and m: "b mod 16 < 16" by auto
  have "\<not> (''0123456789ABCDEF'' ! (b div 16) = CHR ''2''
            \<and> (''0123456789ABCDEF'' ! (b mod 16) = CHR ''E''
                \<or> ''0123456789ABCDEF'' ! (b mod 16) = CHR ''e''))"
  proof
    assume h: "''0123456789ABCDEF'' ! (b div 16) = CHR ''2''
            \<and> (''0123456789ABCDEF'' ! (b mod 16) = CHR ''E''
                \<or> ''0123456789ABCDEF'' ! (b mod 16) = CHR ''e'')"
    then have "b div 16 = 2" using hex_nth_2[OF d] by blast
    moreover from h hex_nth_e[OF m] have "''0123456789ABCDEF'' ! (b mod 16) = CHR ''E''"
      by blast
    then have "b mod 16 = 14" using hex_nth_E[OF m] by blast
    ultimately have "b = 46" by arith
    with assms(2) show False by simp
  qed
  then show ?thesis unfolding percent_def by blast
qed

lemma encode_unit_escaped:
  assumes "\<not> uriUnescaped c"
  shows "\<exists>h1 h2 r. encode_unit c = CHR ''%'' # h1 # h2 # r
           \<and> \<not> (h1 = CHR ''2'' \<and> (h2 = CHR ''E'' \<or> h2 = CHR ''e''))"
proof -
  from utf8_first[of c] obtain b bs where u: "utf8 (of_char c) = b # bs" and b: "b < 256"
    and o: "b = of_char c \<or> 192 \<le> b" by blast
  have "b \<noteq> 46"
  proof
    assume "b = 46"
    with o have "(of_char c :: nat) = 46" by auto
    then have "c = CHR ''.''" by (rule of_char_dot)
    with assms show False by (simp add: uriUnescaped_def)
  qed
  from percent_not_dot[OF b this] obtain h1 h2 where
    p: "percent b = [CHR ''%'', h1, h2]"
    and n: "\<not> (h1 = CHR ''2'' \<and> (h2 = CHR ''E'' \<or> h2 = CHR ''e''))" by blast
  from assms u p have "encode_unit c = CHR ''%'' # h1 # h2 # concat (map percent bs)"
    by (simp add: encode_unit_def)
  with n show ?thesis by blast
qed

lemma encode_unit_nonempty: "encode_unit c \<noteq> []"
proof (cases "uriUnescaped c")
  case True
  then show ?thesis by (simp add: encode_unit_def)
next
  case False
  from encode_unit_escaped[OF this] show ?thesis by auto
qed

lemma enc_empty: "encodeURIComponent s = [] \<Longrightarrow> s = []"
  using encode_unit_nonempty by (cases s) (auto simp: enc_Cons)

lemma enc_single_dot:
  assumes "single_dot (encodeURIComponent s)"
  shows "s = ''.''"
proof (cases s)
  case Nil
  with assms show ?thesis by (simp add: single_dot_def encodeURIComponent_def)
next
  case (Cons c cs)
  show ?thesis
  proof (cases "uriUnescaped c")
    case True
    then have e: "encodeURIComponent s = c # encodeURIComponent cs"
      by (simp add: Cons enc_Cons encode_unit_def)
    from True have "c \<noteq> CHR ''%''" using unescaped_not_special by blast
    with assms e have "c = CHR ''.''" "encodeURIComponent cs = []"
      by (auto simp: single_dot_def)
    with enc_empty[of cs] Cons show ?thesis by simp
  next
    case False
    from encode_unit_escaped[OF this] obtain h1 h2 r where
      u: "encode_unit c = CHR ''%'' # h1 # h2 # r"
      and n: "\<not> (h1 = CHR ''2'' \<and> (h2 = CHR ''E'' \<or> h2 = CHR ''e''))" by blast
    from u have "encodeURIComponent s = CHR ''%'' # h1 # h2 # r @ encodeURIComponent cs"
      by (simp add: Cons enc_Cons)
    with assms n show ?thesis by (auto simp: single_dot_def)
  qed
qed

lemma enc_double_dot:
  assumes "double_dot (encodeURIComponent s)"
  shows "s = ''..''"
proof (cases s)
  case Nil
  with assms show ?thesis by (simp add: double_dot_def encodeURIComponent_def)
next
  case (Cons c cs)
  show ?thesis
  proof (cases "uriUnescaped c")
    case True
    then have e: "encodeURIComponent s = c # encodeURIComponent cs"
      by (simp add: Cons enc_Cons encode_unit_def)
    from True have "c \<noteq> CHR ''%''" using unescaped_not_special by blast
    with assms e have "c = CHR ''.''" "single_dot (encodeURIComponent cs)"
      by (auto simp: double_dot_def single_dot_def)
    with enc_single_dot[of cs] Cons show ?thesis by simp
  next
    case False
    from encode_unit_escaped[OF this] obtain h1 h2 r where
      u: "encode_unit c = CHR ''%'' # h1 # h2 # r"
      and n: "\<not> (h1 = CHR ''2'' \<and> (h2 = CHR ''E'' \<or> h2 = CHR ''e''))" by blast
    from u have "encodeURIComponent s = CHR ''%'' # h1 # h2 # r @ encodeURIComponent cs"
      by (simp add: Cons enc_Cons)
    with assms n show ?thesis by (auto simp: double_dot_def)
  qed
qed

lemma split_slash_plain: "CHR ''/'' \<notin> set xs \<Longrightarrow> split_slash xs = [xs]"
  by (induction xs) auto

lemma product_path_confined:
  assumes "ident \<noteq> ''.''" "ident \<noteq> ''..''"
  shows "sent_path (product_path ident) = [''products'', encodeURIComponent ident]"
proof -
  let ?e = "encodeURIComponent ident"
  have ch: "\<forall>x \<in> set ?e. x \<noteq> CHR ''/'' \<and> x \<noteq> CHR ''?'' \<and> x \<noteq> CHR ''#''"
    using encodeURIComponent_chars by blast
  then have tw: "takeWhile (\<lambda>c. c \<noteq> CHR ''?'' \<and> c \<noteq> CHR ''#'') ?e = ?e"
    by (simp add: takeWhile_eq_all_conv)
  have cut: "drop 1 (takeWhile (\<lambda>c. c \<noteq> CHR ''?'' \<and> c \<noteq> CHR ''#'') (product_path ident))
             = ''products/'' @ ?e"
    by (simp add: product_path_def tw)
  from ch have "CHR ''/'' \<notin> set ?e" by blast
  then have "split_slash ?e = [?e]" by (rule split_slash_plain)
  then have sp: "split_slash (''products/'' @ ?e) = [''products'', ?e]" by simp
  from assms enc_single_dot[of ident] enc_double_dot[of ident]
  have nd: "\<not> single_dot ?e" "\<not> double_dot ?e" by blast+
  have ps: "path_state [] [''products'', ?e] = [''products'', ?e]"
    using nd by (simp add: single_dot_def double_dot_def)
  show ?thesis unfolding sent_path_def cut sp by (rule ps)
qed

text \<open>
  C10: the identifier is to stay within the one path segment after \<open>/products/\<close>.
  \<open>encodeURIComponent\<close> escapes \<open>/\<close>, \<open>?\<close> and \<open>#\<close> but keeps the dot, so the
  identifiers \<open>..\<close> and \<open>.\<close> reach the URL parser as dot segments: the request for
  \<open>..\<close> goes to the path \<open>/\<close>, the one for \<open>.\<close> to \<open>/products/\<close>. Every other
  identifier stays within its segment (\<open>product_path_confined\<close>).
\<close>

theorem product_id_dot_segments:
  "product_path ''..'' = ''/products/..''
   \<and> sent_path (product_path ''..'') = [[]]
   \<and> sent_path (product_path ''.'') = [''products'', []]
   \<and> sent_path (product_path ''a/b?c#d'') = [''products'', ''a%2Fb%3Fc%23d'']"
  by (simp add: product_path_def encodeURIComponent_def encode_unit_def uriUnescaped_def
      percent_def utf8_def sent_path_def single_dot_def double_dot_def)

end
